theory Spec2Isabelle
  imports Main
begin

section \<open>Data model\<close>

text \<open>
  The embedding follows \<^verbatim>\<open>src/scripts/effect-interface.js\<close>, which holds two classes:
  \<^verbatim>\<open>EffectInterface\<close> (the issuer side, names prefixed \<open>EffectInterface_\<close> below) and
  \<^verbatim>\<open>EffectHandler\<close> (the privileged side, names prefixed \<open>EffectHandler_\<close>).
  An effect object is a record of the properties the code reads or writes, wrapped in a
  datatype because the sub-effect flag holds effect objects again.
\<close>

type_synonym uuid = string

record effect_data =
  e_id :: string                        \<comment> \<open>\<^verbatim>\<open>_id\<close>, the identity token\<close>
  e_name :: string                      \<comment> \<open>\<^verbatim>\<open>name\<close>\<close>
  e_origin :: "string option"           \<comment> \<open>\<^verbatim>\<open>origin\<close>, \<open>None\<close> for null\<close>
  e_disabled :: bool                    \<comment> \<open>an effect is applied when it is not disabled\<close>
  e_statuses :: "string list"           \<comment> \<open>\<^verbatim>\<open>statuses\<close>\<close>
  e_changes :: "string list"            \<comment> \<open>\<^verbatim>\<open>changes\<close>, each change kept opaque\<close>
  e_isConvenient :: bool                \<comment> \<open>\<^verbatim>\<open>flags[MODULE_ID][IS_CONVENIENT]\<close>\<close>
  e_isDynamic :: bool                   \<comment> \<open>\<^verbatim>\<open>flags[MODULE_ID][IS_DYNAMIC]\<close>\<close>
  e_nestedEffects :: "string list"      \<comment> \<open>\<^verbatim>\<open>flags[MODULE_ID][NESTED_EFFECTS]\<close>\<close>
  e_overlay :: "bool option"            \<comment> \<open>\<^verbatim>\<open>flags.core.overlay\<close>\<close>
  e_exhaustionLevel :: "int option"     \<comment> \<open>\<^verbatim>\<open>flags.dnd5e.exhaustionLevel\<close>\<close>
  e_originalExhaustion :: "int option"  \<comment> \<open>\<^verbatim>\<open>flags.dnd5e.originalExhaustion\<close>\<close>

datatype effect = Effect (data: effect_data) (subEffects: "effect list")
  \<comment> \<open>\<open>subEffects\<close> is \<^verbatim>\<open>flags[MODULE_ID][SUB_EFFECTS]\<close>\<close>

text \<open>An entry of \<^verbatim>\<open>CONFIG.statusEffects\<close>, the platform's status vocabulary.\<close>

record status_entry =
  se_id :: string            \<comment> \<open>\<^verbatim>\<open>id\<close>, the logical id\<close>
  se_static :: string        \<comment> \<open>\<^verbatim>\<open>_id\<close>, the fixed identity token\<close>
  se_name :: string          \<comment> \<open>\<^verbatim>\<open>name\<close>\<close>
  se_levels :: int           \<comment> \<open>\<^verbatim>\<open>levels\<close>, read on the exhaustion entry only\<close>
  se_statuses :: "string list"  \<comment> \<open>further statuses the entry implies\<close>
  se_isConvenient :: bool    \<comment> \<open>whether the entry itself carries the module's marker flag\<close>

text \<open>
  The value of \<^verbatim>\<open>isExhaustion\<close> in a descriptor: \<^verbatim>\<open>false\<close>, or the captured suffix
  (\<^verbatim>\<open>null\<close> when there is none).
\<close>

datatype exhaustion_delta = NotExhaustion | Delta "string option"

text \<open>
  The object \<^verbatim>\<open>isStatusEffect\<close> returns has the properties \<^verbatim>\<open>id\<close>, \<^verbatim>\<open>staticID\<close> and
  \<^verbatim>\<open>isExhaustion\<close>. \<^verbatim>\<open>EffectHandler.toggleEffect\<close> reads the property \<^verbatim>\<open>_id\<close> of the object
  it is handed; \<open>d_underscore_id\<close> is that property, \<open>None\<close> when the object has none.
\<close>

record descriptor =
  d_id :: string
  d_staticID :: string
  d_isExhaustion :: exhaustion_delta
  d_underscore_id :: "string option"

record actor =
  a_effects :: "effect list"            \<comment> \<open>\<^verbatim>\<open>actor.effects\<close>, in collection order\<close>
  a_exhaustion :: "int option"          \<comment> \<open>\<^verbatim>\<open>actor.system.attributes.exhaustion\<close>\<close>
  a_token :: "bool option option"
    \<comment> \<open>\<^verbatim>\<open>actor.token\<close>: \<open>None\<close> for null, \<open>Some None\<close> with a null \<^verbatim>\<open>object\<close>, else its \<^verbatim>\<open>hasActiveHUD\<close>\<close>
  a_activeTokens :: "bool list"         \<comment> \<open>\<^verbatim>\<open>hasActiveHUD\<close> of each of \<^verbatim>\<open>actor.getActiveTokens()\<close>\<close>

text \<open>
  The ambient state the code only reads: the settings, the status vocabulary, the two
  catalogs, and the collaborators that are not in the file.
\<close>

record env =
  modifyStatusEffects :: string               \<comment> \<open>\<^verbatim>\<open>this._settings.modifyStatusEffects\<close>\<close>
  statusEffects :: "status_entry list"        \<comment> \<open>\<^verbatim>\<open>CONFIG.statusEffects\<close>\<close>
  customEffects :: "effect list"              \<comment> \<open>\<^verbatim>\<open>this._customEffectsHandler.getCustomEffects()\<close>\<close>
  allEffects :: "effect list"                 \<comment> \<open>\<^verbatim>\<open>game.dfreds.effects.all\<close>\<close>
  getActorUuids :: "uuid list"                \<comment> \<open>\<^verbatim>\<open>this._foundryHelpers.getActorUuids()\<close>\<close>
  getId :: "string \<Rightarrow> string"                \<comment> \<open>\<^verbatim>\<open>this._effectHelpers.getId\<close>, the derived identifier\<close>
  randomID :: "effect list \<Rightarrow> string"
    \<comment> \<open>the identity token the store gives an instance created without \<^verbatim>\<open>keepId\<close>\<close>
  dialogChoice :: "effect \<Rightarrow> string option"
    \<comment> \<open>what \<^verbatim>\<open>Dialog.prompt\<close> resolves to for a parent effect, \<open>None\<close> when closed\<close>
  dynamicChanges :: "effect \<Rightarrow> actor \<Rightarrow> string list"
    \<comment> \<open>the changes \<^verbatim>\<open>this._dynamicEffectsAdder.addDynamicEffects\<close> appends\<close>

text \<open>The state the operations change: the actors by UUID and the notifications shown.\<close>

record world =
  actors :: "uuid \<Rightarrow> actor option"
  notifications :: "string list"     \<comment> \<open>the messages of \<^verbatim>\<open>ui.notifications.error\<close>, oldest first\<close>

datatype js_error =
    TypeError          \<comment> \<open>a property read on \<^verbatim>\<open>undefined\<close> or \<^verbatim>\<open>null\<close>\<close>
  | InvalidStatusId    \<comment> \<open>the error the status factory throws for an unknown id\<close>

abbreviation eff_id :: "effect \<Rightarrow> string" where
  "eff_id e \<equiv> e_id (data e)"

abbreviation eff_name :: "effect \<Rightarrow> string" where
  "eff_name e \<equiv> e_name (data e)"

abbreviation eff_origin :: "effect \<Rightarrow> string option" where
  "eff_origin e \<equiv> e_origin (data e)"

section \<open>Resolver: classification of a name\<close>

subsection \<open>The pattern \<^verbatim>\<open>/^(\w+)(?:\s*([+-]?\d+))?$/\<close>\<close>

text \<open>
  Strings are lists of code units below 256. \<^verbatim>\<open>\w\<close> is \<^verbatim>\<open>[A-Za-z0-9_]\<close>, \<^verbatim>\<open>\d\<close> is
  \<^verbatim>\<open>[0-9]\<close>, and \<^verbatim>\<open>\s\<close> in this range is tab, line feed, vertical tab, form feed,
  carriage return, space and the no-break space.
\<close>

definition is_digit :: "char \<Rightarrow> bool" where
  "is_digit c = (48 \<le> (of_char c :: nat) \<and> (of_char c :: nat) \<le> 57)"

definition is_word :: "char \<Rightarrow> bool" where
  "is_word c =
     (is_digit c
      \<or> (65 \<le> (of_char c :: nat) \<and> (of_char c :: nat) \<le> 90)
      \<or> (of_char c :: nat) = 95
      \<or> (97 \<le> (of_char c :: nat) \<and> (of_char c :: nat) \<le> 122))"

definition is_space :: "char \<Rightarrow> bool" where
  "is_space c = ((9 \<le> (of_char c :: nat) \<and> (of_char c :: nat) \<le> 13)
      \<or> (of_char c :: nat) = 32 \<or> (of_char c :: nat) = 160)"

definition is_sign :: "char \<Rightarrow> bool" where
  "is_sign c = (c = CHR ''+'' \<or> c = CHR ''-'')"

text \<open>
  \<open>match_suffix\<close> is the group \<^verbatim>\<open>(?:\s*([+-]?\d+))\<close> followed by \<^verbatim>\<open>$\<close>, run on the rest of
  the input: it returns the capture \<^verbatim>\<open>[+-]?\d+\<close>. Every quantifier is greedy and the
  character classes of consecutive parts are disjoint, so giving back a character never
  turns a failure into a match.
\<close>

definition match_suffix :: "string \<Rightarrow> string option" where
  "match_suffix r =
     (let t = dropWhile is_space r;
          ds = (case t of [] \<Rightarrow> [] | c # cs \<Rightarrow> if is_sign c then cs else t)
      in if ds \<noteq> [] \<and> list_all is_digit ds then Some t else None)"

text \<open>
  \<open>regex_match\<close> is \<^verbatim>\<open>effectName.match(regex)\<close>: \<open>None\<close> for no match, else the two
  captures, the second \<open>None\<close> when the optional group took no part. \<^verbatim>\<open>\w+\<close> is greedy:
  it takes every leading word character, and the match succeeds at once when nothing is
  left. When something is left it starts with a character that is not a word character,
  so a shorter first capture would leave a word character in front of it, which the group
  cannot cross.
\<close>

definition regex_match :: "string \<Rightarrow> (string \<times> string option) option" where
  "regex_match s =
     (let w = takeWhile is_word s; r = dropWhile is_word s
      in if w = [] then None
         else if r = [] then Some (w, None)
         else (case match_suffix r of None \<Rightarrow> None | Some n \<Rightarrow> Some (w, Some n)))"

subsection \<open>\<^verbatim>\<open>findEffectByName\<close>, \<^verbatim>\<open>findCustomEffectByName\<close>, \<^verbatim>\<open>isStatusEffect\<close>\<close>

definition findCustomEffectByName :: "env \<Rightarrow> string \<Rightarrow> effect option" where
  "findCustomEffectByName en effectName =
     find (\<lambda>effect. eff_name effect = effectName) (customEffects en)"

definition findEffectByName :: "env \<Rightarrow> string \<Rightarrow> effect option" where
  "findEffectByName en effectName =
     (case findCustomEffectByName en effectName of
        Some effect \<Rightarrow> Some effect
      | None \<Rightarrow> find (\<lambda>effect. eff_name effect = effectName) (allEffects en))"

text \<open>
  \<^verbatim>\<open>isStatusEffect\<close> returns \<^verbatim>\<open>false\<close> (\<open>Inr None\<close>) or the descriptor; it throws when a
  status matches and the vocabulary has no entry with id \<^verbatim>\<open>exhaustion\<close>, whose \<^verbatim>\<open>_id\<close>
  it reads.
\<close>

definition isStatusEffect :: "env \<Rightarrow> string \<Rightarrow> js_error + descriptor option" where
  "isStatusEffect en effectName =
     (if modifyStatusEffects en \<noteq> ''none'' then Inr None
      else
        let m = regex_match effectName;
            stringEffectName = map_option fst m;
            numberEffectName = (case m of None \<Rightarrow> None | Some (_, n) \<Rightarrow> n)
        in case find (\<lambda>effect. Some (se_name effect) = stringEffectName) (statusEffects en) of
             None \<Rightarrow> Inr None
           | Some checkTranslationsName \<Rightarrow>
               (case find (\<lambda>effect. se_id effect = ''exhaustion'') (statusEffects en) of
                  None \<Rightarrow> Inl TypeError
                | Some exhaustion \<Rightarrow>
                    Inr (Some \<lparr> d_id = se_id checkTranslationsName,
                                d_staticID = se_static checkTranslationsName,
                                d_isExhaustion =
                                  (if se_static checkTranslationsName = se_static exhaustion
                                   then Delta numberEffectName else NotExhaustion),
                                d_underscore_id = None \<rparr>)))"

subsection \<open>Exhaustion arithmetic\<close>

text \<open>
  \<^verbatim>\<open>Number\<close> on a capture \<^verbatim>\<open>[+-]?\d+\<close>; the empty string gives 0. Levels are integers,
  which the platform's numbers hold exactly in the range the clamp leaves.
\<close>

definition digit_value :: "char \<Rightarrow> nat" where
  "digit_value c = of_char c - 48"

definition decimal :: "string \<Rightarrow> nat" where
  "decimal ds = foldl (\<lambda>acc c. 10 * acc + digit_value c) 0 ds"

definition Number :: "string \<Rightarrow> int" where
  "Number s =
     (case s of
        [] \<Rightarrow> 0
      | c # cs \<Rightarrow>
          if c = CHR ''-'' then - int (decimal cs)
          else if c = CHR ''+'' then int (decimal cs)
          else int (decimal s))"

definition clamped :: "int \<Rightarrow> int \<Rightarrow> int \<Rightarrow> int" where
  \<comment> \<open>the platform's \<^verbatim>\<open>Math.clamped(num, min, max)\<close>\<close>
  "clamped num mn mx = min mx (max num mn)"

text \<open>
  The expression bound to \<^verbatim>\<open>newExhaustionLevel\<close> in \<^verbatim>\<open>EffectInterface.addEffect\<close>.
  \<^verbatim>\<open>!targetExhaustionLevel\<close> holds for \<^verbatim>\<open>null\<close> and for the empty string.
\<close>

definition newExhaustionLevel :: "string option \<Rightarrow> int \<Rightarrow> int \<Rightarrow> int" where
  "newExhaustionLevel targetExhaustionLevel currentExhaustionlevel systemExhaustionLevels =
     (case targetExhaustionLevel of
        None \<Rightarrow> min (currentExhaustionlevel + 1) systemExhaustionLevels
      | Some t \<Rightarrow>
          if t = [] then min (currentExhaustionlevel + 1) systemExhaustionLevels
          else if list_ex (\<lambda>sign. sign \<in> set t) ''+-''
          then clamped (currentExhaustionlevel + Number t) 0 systemExhaustionLevels
          else clamped (Number t) 0 systemExhaustionLevels)"

section \<open>Collaborators\<close>

text \<open>
  The helper classes and the platform's store are not in the file; each is modelled here
  from what the specification says of it.
\<close>

definition isConvenient :: "effect \<Rightarrow> bool" where
  \<comment> \<open>Modelled from the spec: \<^verbatim>\<open>EffectHelpers.isConvenient\<close>, missing from the sources, tests the
      is-convenient marker flag of an instance.\<close>
  "isConvenient activeEffect = e_isConvenient (data activeEffect)"

definition appliedEffects :: "actor \<Rightarrow> effect list" where
  \<comment> \<open>Modelled from the spec: \<^verbatim>\<open>Actor.appliedEffects\<close> is \<^verbatim>\<open>Actor.effects\<close> filtered to the
      currently active ones.\<close>
  "appliedEffects a = filter (\<lambda>e. \<not> e_disabled (data e)) (a_effects a)"

definition getActorByUuid :: "world \<Rightarrow> uuid \<Rightarrow> actor option" where
  \<comment> \<open>Modelled from the spec: \<^verbatim>\<open>FoundryHelpers.getActorByUuid\<close>, the store's
      \<^verbatim>\<open>getByUuid(uuid) -> Actor|null\<close>.\<close>
  "getActorByUuid w u = actors w u"

definition updateEffects :: "world \<Rightarrow> uuid \<Rightarrow> (effect list \<Rightarrow> effect list) \<Rightarrow> world" where
  \<comment> \<open>the store's write to the effect list of one actor; used on resolved actors only\<close>
  "updateEffects w u f =
     w\<lparr>actors := (\<lambda>v. if v = u then map_option (\<lambda>a. a\<lparr>a_effects := f (a_effects a)\<rparr>) (actors w v)
                        else actors w v)\<rparr>"

definition createEffect :: "world \<Rightarrow> uuid \<Rightarrow> effect \<Rightarrow> world" where
  \<comment> \<open>Modelled from the spec: the store's \<^verbatim>\<open>createEffects(actor, [definitions])\<close> adds the
      instance to the actor's effects; the store is not in the sources. The options of
      \<^verbatim>\<open>ActiveEffect.implementation.create\<close> are the store's operation context, not effect data.\<close>
  "createEffect w u effect = updateEffects w u (\<lambda>es. es @ [effect])"

definition deleteEffect :: "world \<Rightarrow> uuid \<Rightarrow> effect \<Rightarrow> world" where
  \<comment> \<open>Modelled from the spec: \<^verbatim>\<open>effect.delete()\<close> takes that one instance off its actor.\<close>
  "deleteEffect w u effect = updateEffects w u (remove1 effect)"

definition deleteEmbeddedDocuments :: "world \<Rightarrow> uuid \<Rightarrow> string list \<Rightarrow> world" where
  \<comment> \<open>Modelled from the spec: the store's delete of the instances with the listed identity
      tokens.\<close>
  "deleteEmbeddedDocuments w u ids = updateEffects w u (filter (\<lambda>e. eff_id e \<notin> set ids))"

definition notify :: "world \<Rightarrow> string \<Rightarrow> world" where
  \<comment> \<open>\<^verbatim>\<open>ui.notifications.error(message)\<close>\<close>
  "notify w message = w\<lparr>notifications := notifications w @ [message]\<rparr>"

definition fromStatusEffect :: "env \<Rightarrow> string \<Rightarrow> js_error + effect" where
  \<comment> \<open>Modelled from the spec: the status factory \<^verbatim>\<open>fromStatusId(id)\<close> returns a new unsaved
      instance pre-populated from the vocabulary entry matching the id; the platform's
      \<^verbatim>\<open>ActiveEffect.implementation.fromStatusEffect\<close> throws for an id with no entry.\<close>
  "fromStatusEffect en statusId =
     (case find (\<lambda>e. se_id e = statusId) (statusEffects en) of
        None \<Rightarrow> Inl InvalidStatusId
      | Some status \<Rightarrow>
          Inr (Effect \<lparr> e_id = se_static status, e_name = se_name status, e_origin = None,
                        e_disabled = False,
                        e_statuses = remdups (se_id status # se_statuses status),
                        e_changes = [], e_isConvenient = se_isConvenient status,
                        e_isDynamic = False, e_nestedEffects = [], e_overlay = None,
                        e_exhaustionLevel = None, e_originalExhaustion = None \<rparr> []))"

definition createActiveEffect :: "effect \<Rightarrow> string option \<Rightarrow> effect" where
  \<comment> \<open>Modelled from the spec: \<^verbatim>\<open>EffectHelpers.createActiveEffect({...effectData, origin})\<close>,
      missing from the sources, builds the effect of the given data with the given origin;
      every effect this core builds carries the is-convenient marker.\<close>
  "createActiveEffect effectData origin =
     Effect ((data effectData)\<lparr>e_origin := origin, e_isConvenient := True\<rparr>) (subEffects effectData)"

definition updateSource_effectData :: "effect \<Rightarrow> effect \<Rightarrow> effect" where
  \<comment> \<open>Modelled from the spec: in \<^verbatim>\<open>addEffectWith\<close> the factory's instance takes the supplied
      data, \<^verbatim>\<open>effect.updateSource(effectData)\<close>, after the marker is merged into its flags:
      the supplied properties, the statuses among them, are written over the factory's, and
      the fixed identity token stays the factory's.\<close>
  "updateSource_effectData fresh effectData =
     Effect ((data effectData)\<lparr>e_id := eff_id fresh, e_isConvenient := True\<rparr>)
       (subEffects effectData)"

definition truthy :: "string option \<Rightarrow> bool" where
  \<comment> \<open>a string or \<^verbatim>\<open>undefined\<close> in a condition: the empty string is falsy\<close>
  "truthy v = (case v of None \<Rightarrow> False | Some s \<Rightarrow> s \<noteq> [])"

fun string_of_nat :: "nat \<Rightarrow> string" where
  "string_of_nat n =
     (if n < 10 then [char_of (48 + n)]
      else string_of_nat (n div 10) @ [char_of (48 + n mod 10)])"

declare string_of_nat.simps [simp del]

definition string_of_int :: "int \<Rightarrow> string" where
  \<comment> \<open>an integer in a template literal\<close>
  "string_of_int i = (if i < 0 then CHR ''-'' # string_of_nat (nat (- i)) else string_of_nat (nat i))"

section \<open>Resolver: nested effects\<close>

definition hasNestedEffects :: "effect \<Rightarrow> bool" where
  "hasNestedEffects effect = (length (e_nestedEffects (data effect)) > 0)"

definition getNestedEffectSelection :: "env \<Rightarrow> effect \<Rightarrow> effect option" where
  \<comment> \<open>\<^verbatim>\<open>_getNestedEffectSelection\<close>: the named alternatives that exist, then the one chosen\<close>
  "getNestedEffectSelection en effect =
     (let nestedEffects = List.map_filter (findEffectByName en) (e_nestedEffects (data effect))
      in case dialogChoice en effect of
           None \<Rightarrow> None
         | Some choice \<Rightarrow> find (\<lambda>nestedEffect. eff_name nestedEffect = choice) nestedEffects)"

section \<open>Applier\<close>

definition hasEffectApplied :: "world \<Rightarrow> string \<Rightarrow> uuid \<Rightarrow> bool" where
  "hasEffectApplied w effectName u =
     (case getActorByUuid w u of
        None \<Rightarrow> False
      | Some a \<Rightarrow>
          list_ex (\<lambda>activeEffect. isConvenient activeEffect \<and> eff_name activeEffect = effectName)
            (appliedEffects a))"

text \<open>
  \<^verbatim>\<open>EffectHandler.removeEffect({ effectID, uuid, origin })\<close>. \<open>effectID\<close> and \<open>origin\<close> are
  \<open>None\<close> when the argument object has no such property. The actor is used unchecked.
\<close>

definition matchesID :: "string option \<Rightarrow> effect \<Rightarrow> bool" where
  \<comment> \<open>\<^verbatim>\<open>[activeEffect?._id, activeEffect?.name].some((eID) => eID === effectID)\<close>\<close>
  "matchesID effectID activeEffect =
     list_ex (\<lambda>eID. Some eID = effectID) [eff_id activeEffect, eff_name activeEffect]"

definition EffectHandler_removeEffect ::
  "world \<Rightarrow> string option \<Rightarrow> uuid \<Rightarrow> string option \<Rightarrow> js_error + world" where
  "EffectHandler_removeEffect w effectID u origin =
     (case getActorByUuid w u of
        None \<Rightarrow> Inl TypeError
      | Some a \<Rightarrow>
          let effectToRemove =
                (if truthy origin
                 then find (\<lambda>activeEffect. isConvenient activeEffect
                              \<and> matchesID effectID activeEffect
                              \<and> eff_origin activeEffect = origin) (appliedEffects a)
                 else find (\<lambda>activeEffect. isConvenient activeEffect
                              \<and> matchesID effectID activeEffect) (appliedEffects a))
          in case effectToRemove of
               None \<Rightarrow> Inr w
             | Some e \<Rightarrow> Inr (deleteEffect w u e))"

definition hasActiveHUD :: "actor \<Rightarrow> js_error + bool" where
  \<comment> \<open>\<^verbatim>\<open>actor.token?.object.hasActiveHUD || actor.getActiveTokens()[0].hasActiveHUD\<close>\<close>
  "hasActiveHUD a =
     (case a_token a of
        Some None \<Rightarrow> Inl TypeError
      | Some (Some True) \<Rightarrow> Inr True
      | _ \<Rightarrow> (case a_activeTokens a of [] \<Rightarrow> Inl TypeError | t # _ \<Rightarrow> Inr t))"

text \<open>
  \<^verbatim>\<open>EffectHandler.addEffect\<close> adds the sub-effects of an effect through
  \<^verbatim>\<open>EffectInterface.addEffectWith\<close>, which calls \<^verbatim>\<open>EffectHandler.addEffect\<close> again, possibly
  on a catalog effect the dialog selected. The source has no bound on that recursion, so
  the first argument counts the nested calls of \<^verbatim>\<open>EffectHandler.addEffect\<close> still allowed:
  \<open>None\<close> is a run that needs more. The relay \<^verbatim>\<open>executeAsGM\<close> is the call of the
  privileged operation.
\<close>

definition addEffect_status :: "world \<Rightarrow> actor \<Rightarrow> effect \<Rightarrow> uuid \<Rightarrow> js_error + world" where
  \<comment> \<open>the branch \<^verbatim>\<open>if (isStatusEffect)\<close> of \<^verbatim>\<open>EffectHandler.addEffect\<close>\<close>
  "addEffect_status w a effect u =
     (case (case find (\<lambda>eff. eff_id eff = eff_id effect) (appliedEffects a) of
              None \<Rightarrow> Inr w
            | Some existing \<Rightarrow> EffectHandler_removeEffect w (Some (eff_id existing)) u None) of
        Inl err \<Rightarrow> Inl err
      | Inr w1 \<Rightarrow>
          (case hasActiveHUD a of
             Inl err \<Rightarrow> Inl err
           | Inr _ \<Rightarrow> Inr (createEffect w1 u effect)))"

definition addEffect_prepare :: "env \<Rightarrow> actor \<Rightarrow> effect \<Rightarrow> bool option \<Rightarrow> effect" where
  \<comment> \<open>the instance \<^verbatim>\<open>actor.createEmbeddedDocuments\<close> makes on the other branch: the overlay merged
      into the core flags, the dynamic changes, and the identity token the store assigns\<close>
  "addEffect_prepare en a effect overlay =
     (let flagged = Effect ((data effect)\<lparr>e_overlay := overlay\<rparr>) (subEffects effect);
          dynamic =
            (if e_isDynamic (data flagged)
             then Effect ((data flagged)\<lparr>e_changes :=
                             e_changes (data flagged) @ dynamicChanges en flagged a\<rparr>)
                    (subEffects flagged)
             else flagged)
      in Effect ((data dynamic)\<lparr>e_id := randomID en (a_effects a)\<rparr>) (subEffects dynamic))"

definition addEffectWith_resolve ::
  "env \<Rightarrow> world \<Rightarrow> effect option \<Rightarrow> uuid \<Rightarrow> string option
     \<Rightarrow> (js_error + world) + (effect \<times> descriptor option)" where
  \<comment> \<open>\<^verbatim>\<open>EffectInterface.addEffectWith\<close> up to its relay call: \<open>Inl\<close> is a run that ended before
      it, \<open>Inr\<close> holds the effect and the descriptor handed to the relay\<close>
  "addEffectWith_resolve en w effectData u origin =
     (case effectData of
        None \<Rightarrow> Inl (Inr (notify w ''No effectData were provided!''))
      | Some ed \<Rightarrow>
          (case (if eff_name ed \<noteq> [] then isStatusEffect en (eff_name ed) else Inr None) of
             Inl err \<Rightarrow> Inl (Inl err)
           | Inr isStatus \<Rightarrow>
               (case (case isStatus of
                        Some d \<Rightarrow>
                          (case fromStatusEffect en (d_id d) of
                             Inl err \<Rightarrow> Inl err
                           | Inr fresh \<Rightarrow> Inr (Some (updateSource_effectData fresh ed)))
                      | None \<Rightarrow>
                          (let effect = createActiveEffect ed origin
                           in if hasNestedEffects effect
                              then Inr (getNestedEffectSelection en effect)
                              else Inr (Some effect))) of
                  Inl err \<Rightarrow> Inl (Inl err)
                | Inr None \<Rightarrow> Inl (Inr w)
                | Inr (Some effect) \<Rightarrow>
                    (case getActorByUuid w u of
                       None \<Rightarrow> Inl (Inr (notify w (''Actor '' @ u @ '' could not be found'')))
                     | Some _ \<Rightarrow> Inr (effect, isStatus)))))"

function (sequential) EffectHandler_addEffect ::
    "nat \<Rightarrow> env \<Rightarrow> world \<Rightarrow> effect \<Rightarrow> uuid \<Rightarrow> string option \<Rightarrow> bool option
       \<Rightarrow> descriptor option \<Rightarrow> (js_error + world) option"
  and EffectInterface_addEffectWith ::
    "nat \<Rightarrow> env \<Rightarrow> world \<Rightarrow> effect option \<Rightarrow> uuid \<Rightarrow> string option \<Rightarrow> bool option
       \<Rightarrow> (js_error + world) option"
  and addSubEffects ::
    "nat \<Rightarrow> env \<Rightarrow> world \<Rightarrow> effect list \<Rightarrow> uuid \<Rightarrow> string option \<Rightarrow> (js_error + world) option"
where
  "EffectHandler_addEffect 0 en w effect u origin overlay isStatus = None"
| "EffectHandler_addEffect (Suc n) en w effect u origin overlay isStatus =
     (case getActorByUuid w u of
        None \<Rightarrow> Some (Inl TypeError)
      | Some a \<Rightarrow>
          if isStatus \<noteq> None then Some (addEffect_status w a effect u)
          else addSubEffects n en (createEffect w u (addEffect_prepare en a effect overlay))
                 (subEffects effect) u (Some (getId en (eff_name effect))))"
| "addSubEffects n en w [] u origin = Some (Inr w)"
| "addSubEffects n en w (subEffect # rest) u origin =
     (case EffectInterface_addEffectWith n en w (Some subEffect) u origin None of
        None \<Rightarrow> None
      | Some (Inl err) \<Rightarrow> Some (Inl err)
      | Some (Inr w1) \<Rightarrow> addSubEffects n en w1 rest u origin)"
| "EffectInterface_addEffectWith n en w effectData u origin overlay =
     (case addEffectWith_resolve en w effectData u origin of
        Inl finished \<Rightarrow> Some finished
      | Inr (effect, isStatus) \<Rightarrow> EffectHandler_addEffect n en w effect u origin overlay isStatus)"
  by pat_completeness auto

termination
  by (relation "measures
        [\<lambda>x. case x of Inl p \<Rightarrow> fst p | Inr (Inl p) \<Rightarrow> fst p | Inr (Inr p) \<Rightarrow> fst p,
         \<lambda>x. case x of Inl p \<Rightarrow> 0 | Inr (Inl p) \<Rightarrow> 1 | Inr (Inr p) \<Rightarrow> 2,
         \<lambda>x. case x of Inl p \<Rightarrow> 0 | Inr (Inl p) \<Rightarrow> 0
                      | Inr (Inr p) \<Rightarrow> length (fst (snd (snd (snd p))))]") auto


text \<open>
  \<^verbatim>\<open>EffectHandler.toggleEffect\<close>: \<open>toggleEffect_target\<close> is the body of its loop for one
  UUID. \<open>active\<close> is \<open>None\<close> when the argument object has no such property.
\<close>

definition toggleEffect_existing :: "actor \<Rightarrow> descriptor \<Rightarrow> string list" where
  \<comment> \<open>the list \<^verbatim>\<open>existing\<close>; \<^verbatim>\<open>statuses.size\<close> counts distinct statuses\<close>
  "toggleEffect_existing a isStatus =
     (if truthy (d_underscore_id isStatus)
      then (case find (\<lambda>effect. Some (eff_id effect) = d_underscore_id isStatus) (a_effects a) of
              None \<Rightarrow> []
            | Some effect \<Rightarrow> [eff_id effect])
      else map eff_id
             (filter (\<lambda>effect. length (remdups (e_statuses (data effect))) = 1
                                \<and> d_id isStatus \<in> set (e_statuses (data effect)))
                (a_effects a)))"

definition toggleEffect_target ::
  "nat \<Rightarrow> env \<Rightarrow> world \<Rightarrow> string \<Rightarrow> bool option \<Rightarrow> uuid \<Rightarrow> descriptor option \<Rightarrow> bool option
     \<Rightarrow> (js_error + world) option" where
  "toggleEffect_target n en w effectName overlay u isStatus active =
     (case isStatus of
        None \<Rightarrow>
          if hasEffectApplied w effectName u
          then Some (EffectHandler_removeEffect w None u None)
          else (case findEffectByName en effectName of
                  None \<Rightarrow> Some (Inl TypeError)
                | Some effect \<Rightarrow> EffectHandler_addEffect n en w effect u None overlay None)
      | Some d \<Rightarrow>
          (case getActorByUuid w u of
             None \<Rightarrow> Some (Inr w)
           | Some a \<Rightarrow>
               let existing = toggleEffect_existing a d
               in if existing \<noteq> [] then
                    (if active = Some True then Some (Inr w)
                     else Some (Inr (deleteEmbeddedDocuments w u existing)))
                  else if active = Some False then Some (Inr w)
                  else (case fromStatusEffect en (d_id d) of
                          Inl err \<Rightarrow> Some (Inl err)
                        | Inr effect \<Rightarrow>
                            Some (Inr (createEffect w u
                              (if overlay = Some True
                               then Effect ((data effect)\<lparr>e_overlay := Some True\<rparr>) (subEffects effect)
                               else effect))))))"

fun EffectHandler_toggleEffect ::
  "nat \<Rightarrow> env \<Rightarrow> world \<Rightarrow> string \<Rightarrow> bool option \<Rightarrow> uuid list \<Rightarrow> descriptor option \<Rightarrow> bool option
     \<Rightarrow> (js_error + world) option" where
  "EffectHandler_toggleEffect n en w effectName overlay [] isStatus active = Some (Inr w)"
| "EffectHandler_toggleEffect n en w effectName overlay (u # uuids) isStatus active =
     (case toggleEffect_target n en w effectName overlay u isStatus active of
        None \<Rightarrow> None
      | Some (Inl err) \<Rightarrow> Some (Inl err)
      | Some (Inr w1) \<Rightarrow> EffectHandler_toggleEffect n en w1 effectName overlay uuids isStatus active)"

section \<open>Resolver: the issuer-side operations\<close>

definition EffectInterface_toggleEffect ::
  "nat \<Rightarrow> env \<Rightarrow> world \<Rightarrow> string \<Rightarrow> bool option \<Rightarrow> uuid list \<Rightarrow> (js_error + world) option" where
  "EffectInterface_toggleEffect n en w effectName overlay uuids0 =
     (let uuids = (if length uuids0 = 0 then getActorUuids en else uuids0)
      in if length uuids = 0
         then Some (Inr (notify w (''Please select or target a token to toggle '' @ effectName)))
         else
           (case isStatusEffect en effectName of
              Inl err \<Rightarrow> Some (Inl err)
            | Inr (Some d) \<Rightarrow> EffectHandler_toggleEffect n en w effectName overlay uuids (Some d) None
            | Inr None \<Rightarrow>
                (case findEffectByName en effectName of
                   None \<Rightarrow> Some (Inr (notify w (''Effect '' @ effectName @ '' was not found'')))
                 | Some found \<Rightarrow>
                     (case (if hasNestedEffects found then getNestedEffectSelection en found
                            else Some found) of
                        None \<Rightarrow> Some (Inr w)
                      | Some effect \<Rightarrow>
                          EffectHandler_toggleEffect n en w (eff_name effect) overlay uuids None None))))"

definition EffectInterface_removeEffect ::
  "env \<Rightarrow> world \<Rightarrow> string \<Rightarrow> uuid \<Rightarrow> string option \<Rightarrow> js_error + world" where
  "EffectInterface_removeEffect en w effectName u origin =
     (case isStatusEffect en effectName of
        Inl err \<Rightarrow> Inl err
      | Inr isStatus \<Rightarrow>
          (case (case isStatus of
                   Some d \<Rightarrow> Inr (d_staticID d)
                 | None \<Rightarrow>
                     (case findEffectByName en effectName of
                        None \<Rightarrow> Inl (notify w (''Effect '' @ effectName @ '' could not be found''))
                      | Some found \<Rightarrow>
                          (case (if hasNestedEffects found then getNestedEffectSelection en found
                                 else Some found) of
                             None \<Rightarrow> Inl w
                           | Some effect \<Rightarrow> Inr (eff_name effect)))) of
             Inl finished \<Rightarrow> Inr finished
           | Inr effectID \<Rightarrow>
               (case getActorByUuid w u of
                  None \<Rightarrow> Inr (notify w (''Actor '' @ u @ '' could not be found''))
                | Some _ \<Rightarrow> EffectHandler_removeEffect w (Some effectID) u origin)))"

text \<open>
  \<^verbatim>\<open>EffectInterface.addEffect\<close> reads \<^verbatim>\<open>actor.token\<close> before it tests the actor, so an actor
  that is not found is a throw. \<open>addEffect_status_effect\<close> and \<open>addEffect_exhaustion\<close> are
  its two status branches up to the relay call \<^verbatim>\<open>addEffect\<close>.
\<close>

definition addEffect_status_effect ::
  "env \<Rightarrow> world \<Rightarrow> actor \<Rightarrow> string \<Rightarrow> uuid \<Rightarrow> descriptor \<Rightarrow> js_error + (world \<times> effect)" where
  "addEffect_status_effect en w a effectName u d =
     (case (case find (\<lambda>effect. eff_id effect = d_staticID d) (appliedEffects a) of
              None \<Rightarrow> Inr w
            | Some effect \<Rightarrow> EffectHandler_removeEffect w (Some (eff_id effect)) u None) of
        Inl err \<Rightarrow> Inl err
      | Inr w1 \<Rightarrow>
          (case fromStatusEffect en (d_id d) of
             Inl err \<Rightarrow> Inl err
           | Inr fresh \<Rightarrow>
               let changes = (case findEffectByName en effectName of
                                None \<Rightarrow> [] | Some found \<Rightarrow> e_changes (data found))
               in Inr (w1, Effect ((data fresh)\<lparr>e_isConvenient := True,
                                     e_changes := (if length changes > 0 then changes
                                                   else e_changes (data fresh))\<rparr>)
                             (subEffects fresh))))"

definition addEffect_exhaustion ::
  "env \<Rightarrow> world \<Rightarrow> actor \<Rightarrow> uuid \<Rightarrow> descriptor \<Rightarrow> string option
     \<Rightarrow> js_error + (world + (world \<times> effect))" where
  \<comment> \<open>\<open>Inr (Inl w)\<close> is the run that returns the relayed \<^verbatim>\<open>removeEffect\<close> for level 0\<close>
  "addEffect_exhaustion en w a u d targetExhaustionLevel =
     (case find (\<lambda>e. se_id e = ''exhaustion'') (statusEffects en) of
        None \<Rightarrow> Inl TypeError
      | Some exhaustion \<Rightarrow>
          let systemExhaustionLevels = se_levels exhaustion;
              currentExhaustionlevel = (case a_exhaustion a of None \<Rightarrow> 0 | Some c \<Rightarrow> c);
              level = newExhaustionLevel targetExhaustionLevel currentExhaustionlevel
                        systemExhaustionLevels;
              existing = find (\<lambda>effect. eff_id effect = d_staticID d) (appliedEffects a)
          in if level = 0
             then (case EffectHandler_removeEffect w (map_option eff_id existing) u None of
                     Inl err \<Rightarrow> Inl err
                   | Inr w1 \<Rightarrow> Inr (Inl w1))
             else
               let name = se_name exhaustion @ '' '' @ string_of_int level;
                   changes = (case findEffectByName en name of
                                None \<Rightarrow> [] | Some found \<Rightarrow> e_changes (data found))
               in case (case existing of
                          None \<Rightarrow> Inr w
                        | Some effect \<Rightarrow>
                            EffectHandler_removeEffect w (Some (eff_id effect)) u None) of
                    Inl err \<Rightarrow> Inl err
                  | Inr w1 \<Rightarrow>
                      (case fromStatusEffect en (d_id d) of
                         Inl err \<Rightarrow> Inl err
                       | Inr fresh \<Rightarrow>
                           Inr (Inr (w1, Effect ((data fresh)\<lparr>e_isConvenient := True,
                                                   e_exhaustionLevel := Some level,
                                                   e_originalExhaustion := Some currentExhaustionlevel,
                                                   e_changes := changes,
                                                   e_name := name\<rparr>)
                                           (subEffects fresh)))))"

definition EffectInterface_addEffect ::
  "nat \<Rightarrow> env \<Rightarrow> world \<Rightarrow> string \<Rightarrow> uuid \<Rightarrow> string option \<Rightarrow> bool option
     \<Rightarrow> (js_error + world) option" where
  "EffectInterface_addEffect n en w effectName u origin overlay =
     (case getActorByUuid w u of
        None \<Rightarrow> Some (Inl TypeError)
      | Some a \<Rightarrow>
          (case isStatusEffect en effectName of
             Inl err \<Rightarrow> Some (Inl err)
           | Inr (Some d) \<Rightarrow>
               (case d_isExhaustion d of
                  NotExhaustion \<Rightarrow>
                    (case addEffect_status_effect en w a effectName u d of
                       Inl err \<Rightarrow> Some (Inl err)
                     | Inr (w1, effect) \<Rightarrow>
                         EffectHandler_addEffect n en w1 effect u origin overlay (Some d))
                | Delta targetExhaustionLevel \<Rightarrow>
                    (case addEffect_exhaustion en w a u d targetExhaustionLevel of
                       Inl err \<Rightarrow> Some (Inl err)
                     | Inr (Inl w1) \<Rightarrow> Some (Inr w1)
                     | Inr (Inr (w1, effect)) \<Rightarrow>
                         EffectHandler_addEffect n en w1 effect u origin overlay (Some d)))
           | Inr None \<Rightarrow>
               (case findEffectByName en effectName of
                  None \<Rightarrow> Some (Inr (notify w (''Effect '' @ effectName @ '' could not be found'')))
                | Some found \<Rightarrow>
                    (case (if hasNestedEffects found then getNestedEffectSelection en found
                           else Some found) of
                       None \<Rightarrow> Some (Inr w)
                     | Some effect \<Rightarrow>
                         EffectHandler_addEffect n en w effect u origin overlay None))))"

section \<open>The name grammar in the specification's words\<close>

text \<open>
  The specification describes the pattern as
  \<^verbatim>\<open><word-token><optional whitespace><optional signed-or-unsigned integer>\<close>.
  \<open>spec_grammar name w ws suffix\<close> says that \<open>name\<close> splits that way into the word token
  \<open>w\<close>, the whitespace \<open>ws\<close> and the integer \<open>suffix\<close> (\<open>None\<close> when there is none). It is
  written from the specification, to be compared with \<open>regex_match\<close>.
\<close>

definition integer_suffix :: "string \<Rightarrow> bool" where
  "integer_suffix t =
     (case t of
        [] \<Rightarrow> False
      | c # cs \<Rightarrow> if is_sign c then cs \<noteq> [] \<and> list_all is_digit cs else list_all is_digit t)"

definition spec_grammar :: "string \<Rightarrow> string \<Rightarrow> string \<Rightarrow> string option \<Rightarrow> bool" where
  "spec_grammar name w ws suffix =
     (w \<noteq> [] \<and> list_all is_word w \<and> list_all is_space ws
      \<and> (case suffix of None \<Rightarrow> name = w @ ws | Some t \<Rightarrow> integer_suffix t \<and> name = w @ ws @ t))"

section \<open>Predicates used in the statements\<close>

definition applied_match :: "string option \<Rightarrow> string option \<Rightarrow> effect \<Rightarrow> bool" where
  \<comment> \<open>an effect \<^verbatim>\<open>EffectHandler.removeEffect\<close> can find: applied, marked convenient, matching the
      identifier by identity token or by name, and of the origin when one is supplied\<close>
  "applied_match effectID origin e =
     (\<not> e_disabled (data e) \<and> isConvenient e \<and> matchesID effectID e
      \<and> (if truthy origin then eff_origin e = origin else True))"

definition effects_of :: "world \<Rightarrow> uuid \<Rightarrow> effect list" where
  \<comment> \<open>the effect list of an actor, empty for a UUID with no actor\<close>
  "effects_of w u = (case actors w u of None \<Rightarrow> [] | Some a \<Rightarrow> a_effects a)"


definition toggled_actor :: "env \<Rightarrow> descriptor \<Rightarrow> bool option \<Rightarrow> bool option \<Rightarrow> actor \<Rightarrow> actor" where
  \<comment> \<open>one actor after one pass of the status branch of \<^verbatim>\<open>EffectHandler.toggleEffect\<close>, for a
      descriptor whose id the factory knows: the existing instances deleted unless the status
      is forced active, or the factory's instance created unless it is forced inactive\<close>
  "toggled_actor en d overlay active a =
     (if toggleEffect_existing a d \<noteq> []
      then (if active = Some True then a
            else a\<lparr>a_effects := filter (\<lambda>e. eff_id e \<notin> set (toggleEffect_existing a d))
                                   (a_effects a)\<rparr>)
      else if active = Some False then a
      else (case fromStatusEffect en (d_id d) of
              Inl err \<Rightarrow> a
            | Inr effect \<Rightarrow>
                a\<lparr>a_effects := a_effects a @
                     [if overlay = Some True
                      then Effect ((data effect)\<lparr>e_overlay := Some True\<rparr>) (subEffects effect)
                      else effect]\<rparr>))"


section \<open>Example values\<close>

text \<open>
  A small status vocabulary, a catalog and one actor, on which the theorems below are
  exercised.
\<close>

definition prone_entry :: status_entry where
  "prone_entry = \<lparr> se_id = ''prone'', se_static = ''dnd5eprone000000'', se_name = ''Prone'',
                    se_levels = 0, se_statuses = [], se_isConvenient = False \<rparr>"

definition exhaustion_entry :: status_entry where
  "exhaustion_entry = \<lparr> se_id = ''exhaustion'', se_static = ''dnd5eexhaustion0'',
                         se_name = ''Exhaustion'', se_levels = 6, se_statuses = [],
                         se_isConvenient = False \<rparr>"

definition plain_effect :: "string \<Rightarrow> effect list \<Rightarrow> effect" where
  "plain_effect nm subs =
     Effect \<lparr> e_id = [], e_name = nm, e_origin = None, e_disabled = False, e_statuses = [],
              e_changes = [], e_isConvenient = True, e_isDynamic = False, e_nestedEffects = [],
              e_overlay = None, e_exhaustionLevel = None, e_originalExhaustion = None \<rparr> subs"

definition example_env :: env where
  "example_env =
     \<lparr> modifyStatusEffects = ''none'', statusEffects = [prone_entry, exhaustion_entry],
       customEffects = [], allEffects = [plain_effect ''Bless'' []],
       getActorUuids = [], getId = (\<lambda>nm. ''Convenient Effect: '' @ nm),
       randomID = (\<lambda>es. ''id'' @ replicate (length es) CHR ''+''),
       dialogChoice = (\<lambda>_. None), dynamicChanges = (\<lambda>_ _. []) \<rparr>"

definition example_actor :: "effect list \<Rightarrow> actor" where
  "example_actor es = \<lparr> a_effects = es, a_exhaustion = Some 3, a_token = None,
                         a_activeTokens = [False] \<rparr>"

definition example_world :: "effect list \<Rightarrow> world" where
  "example_world es = \<lparr> actors = (\<lambda>u. if u = ''Actor.a'' then Some (example_actor es) else None),
                         notifications = [] \<rparr>"

definition instance_effect :: "string \<Rightarrow> string \<Rightarrow> string option \<Rightarrow> bool \<Rightarrow> bool \<Rightarrow> effect" where
  \<comment> \<open>an instance on an actor: identity token, name, origin, disabled, marked convenient\<close>
  "instance_effect ident nm orig dis conv =
     Effect \<lparr> e_id = ident, e_name = nm, e_origin = orig, e_disabled = dis, e_statuses = [],
              e_changes = [], e_isConvenient = conv, e_isDynamic = False, e_nestedEffects = [],
              e_overlay = None, e_exhaustionLevel = None, e_originalExhaustion = None \<rparr> []"

definition status_instance :: "string \<Rightarrow> string \<Rightarrow> string list \<Rightarrow> bool \<Rightarrow> effect" where
  \<comment> \<open>an applied instance that grants statuses: identity token, name, statuses, marked convenient\<close>
  "status_instance ident nm sts conv =
     Effect \<lparr> e_id = ident, e_name = nm, e_origin = None, e_disabled = False, e_statuses = sts,
              e_changes = [], e_isConvenient = conv, e_isDynamic = False, e_nestedEffects = [],
              e_overlay = None, e_exhaustionLevel = None, e_originalExhaustion = None \<rparr> []"

definition example_world2 :: "effect list \<Rightarrow> effect list \<Rightarrow> world" where
  \<comment> \<open>two actors\<close>
  "example_world2 es1 es2 =
     \<lparr> actors = (\<lambda>u. if u = ''Actor.a'' then Some (example_actor es1)
                      else if u = ''Actor.b'' then Some (example_actor es2) else None),
       notifications = [] \<rparr>"

section \<open>Characters and numbers\<close>

lemma sign_not_word: "is_sign c \<Longrightarrow> \<not> is_word c"
  by (auto simp: is_sign_def is_word_def is_digit_def)

lemma sign_not_space: "is_sign c \<Longrightarrow> \<not> is_space c"
  by (auto simp: is_sign_def is_space_def)

lemma sign_not_digit: "is_sign c \<Longrightarrow> \<not> is_digit c"
  by (auto simp: is_sign_def is_digit_def)

lemma digit_is_word: "is_digit c \<Longrightarrow> is_word c"
  by (simp add: is_word_def)

lemma digit_not_space: "is_digit c \<Longrightarrow> \<not> is_space c"
  by (auto simp: is_space_def is_digit_def)

lemma space_not_word: "is_space c \<Longrightarrow> \<not> is_word c"
  by (auto simp: is_space_def is_word_def is_digit_def)

lemma digits_no_sign: "list_all is_digit ds \<Longrightarrow> \<not> list_ex (\<lambda>sign. sign \<in> set ds) ''+-''"
  by (auto simp: list_all_iff is_digit_def)

lemma Number_plus: "Number (CHR ''+'' # ds) = int (decimal ds)"
  by (simp add: Number_def)

lemma Number_minus: "Number (CHR ''-'' # ds) = - int (decimal ds)"
  by (simp add: Number_def)

lemma Number_digits: "ds \<noteq> [] \<Longrightarrow> list_all is_digit ds \<Longrightarrow> Number ds = int (decimal ds)"
  by (cases ds) (auto simp: Number_def is_digit_def)

section \<open>Exhaustion arithmetic\<close>

lemma addEffect_level_zero:
  assumes "getActorByUuid w u = Some a"
    and "isStatusEffect en effectName = Inr (Some d)"
    and "d_isExhaustion d = Delta t"
    and "find (\<lambda>e. se_id e = ''exhaustion'') (statusEffects en) = Some ex"
    and "newExhaustionLevel t (case a_exhaustion a of None \<Rightarrow> 0 | Some c \<Rightarrow> c) (se_levels ex) = 0"
  shows "EffectInterface_addEffect n en w effectName u origin overlay =
           Some (EffectHandler_removeEffect w
                   (map_option eff_id (find (\<lambda>effect. eff_id effect = d_staticID d) (appliedEffects a)))
                   u None)"
  using assms
  by (simp add: EffectInterface_addEffect_def addEffect_exhaustion_def Let_def split: sum.splits)

text \<open>
  Claim C4. The exhaustion target level: a bare name gives \<open>min (current + 1) maxLevel\<close>; a
  suffix with a sign gives the current level plus the signed value, clamped to
  \<open>0 .. maxLevel\<close>; an unsigned suffix gives its value, clamped; and when the level is 0 the
  issuer's \<^verbatim>\<open>addEffect\<close> is the relayed removal, with no creation. The three examples of the
  specification are conjuncts.
\<close>

theorem exhaustion_target_level:
  "newExhaustionLevel None current maxLevel = min (current + 1) maxLevel
   \<and> (ds \<noteq> [] \<and> list_all is_digit ds \<and> 0 \<le> maxLevel \<longrightarrow>
        newExhaustionLevel (Some (CHR ''+'' # ds)) current maxLevel
          = max 0 (min maxLevel (current + int (decimal ds)))
      \<and> newExhaustionLevel (Some (CHR ''-'' # ds)) current maxLevel
          = max 0 (min maxLevel (current - int (decimal ds)))
      \<and> newExhaustionLevel (Some ds) current maxLevel = max 0 (min maxLevel (int (decimal ds))))
   \<and> (4 \<le> maxLevel \<longrightarrow> newExhaustionLevel (Some ''+2'') 2 maxLevel = 4)
   \<and> newExhaustionLevel None 5 5 = 5
   \<and> (0 \<le> maxLevel \<longrightarrow> newExhaustionLevel (Some ''-5'') 3 maxLevel = 0)
   \<and> (getActorByUuid w u = Some a \<and> isStatusEffect en effectName = Inr (Some d)
        \<and> d_isExhaustion d = Delta t
        \<and> find (\<lambda>e. se_id e = ''exhaustion'') (statusEffects en) = Some ex
        \<and> newExhaustionLevel t (case a_exhaustion a of None \<Rightarrow> 0 | Some c \<Rightarrow> c) (se_levels ex) = 0
        \<longrightarrow> EffectInterface_addEffect n en w effectName u origin overlay
              = Some (EffectHandler_removeEffect w
                        (map_option eff_id
                           (find (\<lambda>effect. eff_id effect = d_staticID d) (appliedEffects a)))
                        u None))"
proof -
  have null_case: "newExhaustionLevel None current maxLevel = min (current + 1) maxLevel"
    by (simp add: newExhaustionLevel_def)
  have signed_unsigned:
    "newExhaustionLevel (Some (CHR ''+'' # ds)) current maxLevel
          = max 0 (min maxLevel (current + int (decimal ds)))
      \<and> newExhaustionLevel (Some (CHR ''-'' # ds)) current maxLevel
          = max 0 (min maxLevel (current - int (decimal ds)))
      \<and> newExhaustionLevel (Some ds) current maxLevel = max 0 (min maxLevel (int (decimal ds)))"
    if "ds \<noteq> []" "list_all is_digit ds" "0 \<le> maxLevel"
    using that digits_no_sign [of ds] Number_digits [of ds]
    by (auto simp: newExhaustionLevel_def clamped_def Number_plus Number_minus min_def max_def)
  have plus_two: "newExhaustionLevel (Some ''+2'') 2 maxLevel = 4" if "4 \<le> maxLevel"
    using that
    by (simp add: newExhaustionLevel_def clamped_def Number_def decimal_def digit_value_def)
  have at_max: "newExhaustionLevel None 5 5 = 5"
    by (simp add: newExhaustionLevel_def)
  have minus_five: "newExhaustionLevel (Some ''-5'') 3 maxLevel = 0" if "0 \<le> maxLevel"
    using that
    by (simp add: newExhaustionLevel_def clamped_def Number_def decimal_def digit_value_def)
  show ?thesis
    using null_case signed_unsigned plus_two at_max minus_five addEffect_level_zero
    by blast
qed

lemma find_example_exhaustion:
  "find (\<lambda>e. se_id e = ''exhaustion'') (statusEffects example_env) = Some exhaustion_entry"
  by (simp add: example_env_def prone_entry_def exhaustion_entry_def)

lemma classify_exhaustion_minus5:
  "isStatusEffect example_env ''Exhaustion -5''
     = Inr (Some \<lparr> d_id = ''exhaustion'', d_staticID = ''dnd5eexhaustion0'',
                   d_isExhaustion = Delta (Some ''-5''), d_underscore_id = None \<rparr>)"
  by (simp add: isStatusEffect_def regex_match_def match_suffix_def is_word_def is_digit_def
      is_space_def is_sign_def example_env_def prone_entry_def exhaustion_entry_def)

theorem exhaustion_target_level_witness:
  "newExhaustionLevel (Some ''+2'') 2 6 = 4
   \<and> newExhaustionLevel (Some ''-5'') 3 6 = 0
   \<and> newExhaustionLevel (Some ''4'') 1 6 = 4
   \<and> EffectInterface_addEffect 0 example_env (example_world []) ''Exhaustion -5'' ''Actor.a'' None None
       = Some (Inr (example_world []))"
proof -
  let ?d = "\<lparr> d_id = ''exhaustion'', d_staticID = ''dnd5eexhaustion0'',
               d_isExhaustion = Delta (Some ''-5''), d_underscore_id = None \<rparr>"
  have digits: "''4'' \<noteq> [] \<and> list_all is_digit ''4'' \<and> (0::int) \<le> 6"
    by (simp add: is_digit_def)
  have actor: "getActorByUuid (example_world []) ''Actor.a'' = Some (example_actor [])"
    by (simp add: getActorByUuid_def example_world_def)
  have level: "newExhaustionLevel (Some ''-5'')
                 (case a_exhaustion (example_actor []) of None \<Rightarrow> 0 | Some c \<Rightarrow> c)
                 (se_levels exhaustion_entry) = 0"
    by (simp add: newExhaustionLevel_def clamped_def Number_def decimal_def digit_value_def
        example_actor_def exhaustion_entry_def)
  have removal: "EffectHandler_removeEffect (example_world [])
                   (map_option eff_id
                      (find (\<lambda>effect. eff_id effect = d_staticID ?d) (appliedEffects (example_actor []))))
                   ''Actor.a'' None = Inr (example_world [])"
    by (simp add: EffectHandler_removeEffect_def getActorByUuid_def example_world_def
        appliedEffects_def example_actor_def truthy_def)
  show ?thesis
    using exhaustion_target_level [of 1 6 "''4''" "example_world []" "''Actor.a''"
        "example_actor []" example_env "''Exhaustion -5''" ?d "Some ''-5''" exhaustion_entry 0 None None]
      digits actor level removal find_example_exhaustion classify_exhaustion_minus5
    by (simp add: decimal_def digit_value_def)
qed

section \<open>Classification of a name\<close>

lemma takeWhile_dropWhile_split:
  assumes "list_all P w" and "r = [] \<or> \<not> P (hd r)"
  shows "takeWhile P (w @ r) = w \<and> dropWhile P (w @ r) = r"
  using assms
proof (induction w)
  case Nil
  then show ?case by (cases r) auto
next
  case (Cons c cs)
  then show ?case by auto
qed

lemma integer_suffix_hd:
  "integer_suffix t \<Longrightarrow> t \<noteq> [] \<and> (is_sign (hd t) \<or> is_digit (hd t))"
  by (cases t) (auto simp: integer_suffix_def split: if_splits)

lemma integer_suffix_not_space: "integer_suffix t \<Longrightarrow> t = [] \<or> \<not> is_space (hd t)"
  using integer_suffix_hd [of t] sign_not_space digit_not_space by blast

lemma match_suffix_iff:
  "match_suffix r = Some t \<longleftrightarrow> (\<exists>ws. r = ws @ t \<and> list_all is_space ws \<and> integer_suffix t)"
proof
  assume m: "match_suffix r = Some t"
  then have t: "t = dropWhile is_space r"
    by (simp add: match_suffix_def Let_def split: if_splits)
  have "r = takeWhile is_space r @ t"
    by (simp add: t)
  moreover have "list_all is_space (takeWhile is_space r)"
    by (simp add: list_all_iff) (meson set_takeWhileD)
  moreover have "integer_suffix t"
    using m unfolding t
    by (cases "dropWhile is_space r")
       (auto simp: match_suffix_def integer_suffix_def Let_def split: if_splits)
  ultimately show "\<exists>ws. r = ws @ t \<and> list_all is_space ws \<and> integer_suffix t"
    by blast
next
  assume "\<exists>ws. r = ws @ t \<and> list_all is_space ws \<and> integer_suffix t"
  then obtain ws where r: "r = ws @ t" and ws: "list_all is_space ws" and t: "integer_suffix t"
    by blast
  have "dropWhile is_space r = t"
    using takeWhile_dropWhile_split [OF ws integer_suffix_not_space [OF t]] r by simp
  then show "match_suffix r = Some t"
    using t by (cases t) (auto simp: match_suffix_def integer_suffix_def Let_def split: if_splits)
qed

lemma regex_match_no_suffix:
  "regex_match name = Some (w, None) \<longleftrightarrow> name = w \<and> w \<noteq> [] \<and> list_all is_word w"
proof
  assume m: "regex_match name = Some (w, None)"
  then have w: "w = takeWhile is_word name" and "w \<noteq> []" and "dropWhile is_word name = []"
    by (auto simp: regex_match_def Let_def split: if_splits option.splits)
  then have "name = w"
    by (metis append_Nil2 takeWhile_dropWhile_id)
  moreover have "list_all is_word w"
    unfolding w by (simp add: list_all_iff) (meson set_takeWhileD)
  ultimately show "name = w \<and> w \<noteq> [] \<and> list_all is_word w"
    using \<open>w \<noteq> []\<close> by simp
next
  assume a: "name = w \<and> w \<noteq> [] \<and> list_all is_word w"
  have tw: "takeWhile is_word w = w" and dw: "dropWhile is_word w = []"
    using a by (simp_all add: list_all_iff)
  show "regex_match name = Some (w, None)"
    using a by (simp add: regex_match_def Let_def tw dw)
qed

lemma regex_match_with_suffix:
  "regex_match name = Some (w, Some t) \<longleftrightarrow>
     (\<exists>ws. name = w @ ws @ t \<and> w \<noteq> [] \<and> list_all is_word w \<and> list_all is_space ws
           \<and> integer_suffix t \<and> (ws = [] \<longrightarrow> is_sign (hd t)))"
proof
  assume m: "regex_match name = Some (w, Some t)"
  define r where "r = dropWhile is_word name"
  from m have w: "w = takeWhile is_word name" and wne: "w \<noteq> []" and rne: "r \<noteq> []"
    and ms: "match_suffix r = Some t"
    by (auto simp: regex_match_def r_def Let_def split: if_splits option.splits)
  from ms obtain ws where r: "r = ws @ t" and ws: "list_all is_space ws" and t: "integer_suffix t"
    using match_suffix_iff by blast
  have name: "name = w @ ws @ t"
    using r by (simp add: w r_def [symmetric] flip: r)
       (metis r r_def takeWhile_dropWhile_id)
  have allw: "list_all is_word w"
    unfolding w by (simp add: list_all_iff) (meson set_takeWhileD)
  have "\<not> is_word (hd r)"
    using rne unfolding r_def by (simp add: hd_dropWhile)
  then have "ws = [] \<longrightarrow> is_sign (hd t)"
    using r integer_suffix_hd [OF t] digit_is_word by auto
  then show "\<exists>ws. name = w @ ws @ t \<and> w \<noteq> [] \<and> list_all is_word w \<and> list_all is_space ws
           \<and> integer_suffix t \<and> (ws = [] \<longrightarrow> is_sign (hd t))"
    using name wne allw ws t by blast
next
  assume "\<exists>ws. name = w @ ws @ t \<and> w \<noteq> [] \<and> list_all is_word w \<and> list_all is_space ws
           \<and> integer_suffix t \<and> (ws = [] \<longrightarrow> is_sign (hd t))"
  then obtain ws where name: "name = w @ ws @ t" and wne: "w \<noteq> []" and allw: "list_all is_word w"
    and ws: "list_all is_space ws" and t: "integer_suffix t" and sg: "ws = [] \<longrightarrow> is_sign (hd t)"
    by blast
  have tne: "t \<noteq> []"
    using integer_suffix_hd [OF t] by simp
  have "\<not> is_word (hd (ws @ t))"
  proof (cases ws)
    case Nil
    then show ?thesis using sg sign_not_word by simp
  next
    case (Cons c cs)
    then show ?thesis using ws space_not_word by simp
  qed
  then have split: "takeWhile is_word name = w \<and> dropWhile is_word name = ws @ t"
    using takeWhile_dropWhile_split [OF allw, of "ws @ t"] name by simp
  have "match_suffix (ws @ t) = Some t"
    using match_suffix_iff ws t by blast
  then show "regex_match name = Some (w, Some t)"
    using wne tne by (simp add: regex_match_def Let_def split)
qed

lemma regex_match_iff_grammar:
  "regex_match name = Some (w, suffix) \<longleftrightarrow>
     (\<exists>ws. spec_grammar name w ws suffix
           \<and> (suffix = None \<longrightarrow> ws = [])
           \<and> (\<forall>t. suffix = Some t \<and> ws = [] \<longrightarrow> is_sign (hd t)))"
proof (cases suffix)
  case None
  then show ?thesis
    by (auto simp: regex_match_no_suffix spec_grammar_def)
next
  case (Some t)
  then show ?thesis
    by (auto simp: regex_match_with_suffix spec_grammar_def)
qed

lemma isStatusEffect_other_setting:
  "modifyStatusEffects en \<noteq> ''none'' \<Longrightarrow> isStatusEffect en name = Inr None"
  by (simp add: isStatusEffect_def)

lemma isStatusEffect_descriptor:
  assumes "modifyStatusEffects en = ''none''"
    and "find (\<lambda>e. se_id e = ''exhaustion'') (statusEffects en) = Some ex"
  shows "isStatusEffect en name = Inr (Some d) \<longleftrightarrow>
           (\<exists>w suffix entry. regex_match name = Some (w, suffix)
              \<and> find (\<lambda>e. se_name e = w) (statusEffects en) = Some entry
              \<and> d = \<lparr> d_id = se_id entry, d_staticID = se_static entry,
                      d_isExhaustion = (if se_static entry = se_static ex then Delta suffix
                                        else NotExhaustion),
                      d_underscore_id = None \<rparr>)"
proof (cases "regex_match name")
  case None
  have "find (\<lambda>effect. Some (se_name effect) = None) (statusEffects en) = None"
    by (simp add: find_None_iff)
  then show ?thesis
    using assms None by (simp add: isStatusEffect_def)
next
  case (Some m)
  obtain w suffix where m: "m = (w, suffix)"
    by (cases m)
  show ?thesis
    using assms Some m
    by (cases "find (\<lambda>e. se_name e = w) (statusEffects en)") (auto simp: isStatusEffect_def)
qed

lemma isStatusEffect_returns:
  assumes "find (\<lambda>e. se_id e = ''exhaustion'') (statusEffects en) = Some ex"
  shows "isStatusEffect en name = Inr None \<or> (\<exists>d. isStatusEffect en name = Inr (Some d))"
  using assms by (simp add: isStatusEffect_def Let_def split: option.splits)

text \<open>
  Claim C5, amended. In a vocabulary that has the exhaustion entry: for a setting other than
  \<^verbatim>\<open>none\<close> every name classifies as \<^verbatim>\<open>false\<close>; for \<^verbatim>\<open>none\<close> the descriptor \<open>d\<close> is returned
  exactly when the name splits by the grammar into a word token that is the name of a
  vocabulary entry, where whitespace stands only in front of an integer and an integer that
  follows the word token directly starts with a sign. The suffix is the exhaustion delta
  (\<open>None\<close> without one) on the exhaustion entry, and the descriptor says \<open>NotExhaustion\<close> on
  any other. The classification never throws.
\<close>

theorem isStatusEffect_classification:
  assumes "find (\<lambda>e. se_id e = ''exhaustion'') (statusEffects en) = Some ex"
  shows "(modifyStatusEffects en \<noteq> ''none'' \<longrightarrow> isStatusEffect en name = Inr None)
       \<and> (modifyStatusEffects en = ''none'' \<longrightarrow>
            (isStatusEffect en name = Inr (Some d)) =
              (\<exists>w ws suffix entry.
                  spec_grammar name w ws suffix
                  \<and> (suffix = None \<longrightarrow> ws = [])
                  \<and> (\<forall>t. suffix = Some t \<and> ws = [] \<longrightarrow> is_sign (hd t))
                  \<and> find (\<lambda>e. se_name e = w) (statusEffects en) = Some entry
                  \<and> d = \<lparr> d_id = se_id entry, d_staticID = se_static entry,
                          d_isExhaustion = (if se_static entry = se_static ex then Delta suffix
                                            else NotExhaustion),
                          d_underscore_id = None \<rparr>))
       \<and> (isStatusEffect en name = Inr None \<or> (\<exists>d'. isStatusEffect en name = Inr (Some d')))"
proof (intro conjI impI)
  assume "modifyStatusEffects en \<noteq> ''none''"
  then show "isStatusEffect en name = Inr None"
    by (rule isStatusEffect_other_setting)
next
  assume none: "modifyStatusEffects en = ''none''"
  show "(isStatusEffect en name = Inr (Some d)) =
              (\<exists>w ws suffix entry.
                  spec_grammar name w ws suffix
                  \<and> (suffix = None \<longrightarrow> ws = [])
                  \<and> (\<forall>t. suffix = Some t \<and> ws = [] \<longrightarrow> is_sign (hd t))
                  \<and> find (\<lambda>e. se_name e = w) (statusEffects en) = Some entry
                  \<and> d = \<lparr> d_id = se_id entry, d_staticID = se_static entry,
                          d_isExhaustion = (if se_static entry = se_static ex then Delta suffix
                                            else NotExhaustion),
                          d_underscore_id = None \<rparr>)"
    unfolding isStatusEffect_descriptor [OF none assms] regex_match_iff_grammar
    by blast
next
  show "isStatusEffect en name = Inr None \<or> (\<exists>d'. isStatusEffect en name = Inr (Some d'))"
    using assms by (rule isStatusEffect_returns)
qed

text \<open>
  Claim C5 as stated fails for an unsigned integer written directly after the name:
  \<^verbatim>\<open>Exhaustion2\<close> splits by the grammar into the registered name \<^verbatim>\<open>Exhaustion\<close> and the integer
  \<^verbatim>\<open>2\<close>, and the classification is \<^verbatim>\<open>false\<close>, since \<^verbatim>\<open>\w+\<close> takes the digit.
\<close>

theorem classification_bare_number_counterexample:
  "spec_grammar ''Exhaustion2'' ''Exhaustion'' [] (Some ''2'')
   \<and> map se_name (statusEffects example_env) = [''Prone'', ''Exhaustion'']
   \<and> modifyStatusEffects example_env = ''none''
   \<and> isStatusEffect example_env ''Exhaustion2'' = Inr None"
  by (simp add: spec_grammar_def integer_suffix_def isStatusEffect_def regex_match_def
      match_suffix_def is_word_def is_digit_def is_space_def is_sign_def example_env_def
      prone_entry_def exhaustion_entry_def)

theorem isStatusEffect_classification_witness:
  "isStatusEffect example_env ''Exhaustion +2''
     = Inr (Some \<lparr> d_id = ''exhaustion'', d_staticID = ''dnd5eexhaustion0'',
                   d_isExhaustion = Delta (Some ''+2''), d_underscore_id = None \<rparr>)
   \<and> isStatusEffect example_env ''Prone''
     = Inr (Some \<lparr> d_id = ''prone'', d_staticID = ''dnd5eprone000000'',
                   d_isExhaustion = NotExhaustion, d_underscore_id = None \<rparr>)"
proof -
  have setting: "modifyStatusEffects example_env = ''none''"
    by (simp add: example_env_def)
  have exh: "find (\<lambda>e. se_name e = ''Exhaustion'') (statusEffects example_env) = Some exhaustion_entry"
    by (simp add: example_env_def prone_entry_def exhaustion_entry_def)
  have prone: "find (\<lambda>e. se_name e = ''Prone'') (statusEffects example_env) = Some prone_entry"
    by (simp add: example_env_def prone_entry_def exhaustion_entry_def)
  have g1: "spec_grammar ''Exhaustion +2'' ''Exhaustion'' '' '' (Some ''+2'')"
    by (simp add: spec_grammar_def integer_suffix_def is_word_def is_digit_def is_space_def
        is_sign_def)
  have g2: "spec_grammar ''Prone'' ''Prone'' [] None"
    by (simp add: spec_grammar_def is_word_def is_digit_def)
  let ?d1 = "\<lparr> d_id = ''exhaustion'', d_staticID = ''dnd5eexhaustion0'',
                d_isExhaustion = Delta (Some ''+2''), d_underscore_id = None \<rparr>"
  let ?d2 = "\<lparr> d_id = ''prone'', d_staticID = ''dnd5eprone000000'',
                d_isExhaustion = NotExhaustion, d_underscore_id = None \<rparr>"
  have "\<exists>w ws suffix entry.
          spec_grammar ''Exhaustion +2'' w ws suffix
          \<and> (suffix = None \<longrightarrow> ws = [])
          \<and> (\<forall>t. suffix = Some t \<and> ws = [] \<longrightarrow> is_sign (hd t))
          \<and> find (\<lambda>e. se_name e = w) (statusEffects example_env) = Some entry
          \<and> ?d1 = \<lparr> d_id = se_id entry, d_staticID = se_static entry,
                    d_isExhaustion = (if se_static entry = se_static exhaustion_entry
                                      then Delta suffix else NotExhaustion),
                    d_underscore_id = None \<rparr>"
    apply (rule exI [of _ "''Exhaustion''"], rule exI [of _ "'' ''"],
           rule exI [of _ "Some ''+2''"], rule exI [of _ exhaustion_entry])
    using g1 exh by (simp add: exhaustion_entry_def)
  then have c1: "isStatusEffect example_env ''Exhaustion +2'' = Inr (Some ?d1)"
    using isStatusEffect_classification [OF find_example_exhaustion, of "''Exhaustion +2''" ?d1]
      setting by blast
  have "\<exists>w ws suffix entry.
          spec_grammar ''Prone'' w ws suffix
          \<and> (suffix = None \<longrightarrow> ws = [])
          \<and> (\<forall>t. suffix = Some t \<and> ws = [] \<longrightarrow> is_sign (hd t))
          \<and> find (\<lambda>e. se_name e = w) (statusEffects example_env) = Some entry
          \<and> ?d2 = \<lparr> d_id = se_id entry, d_staticID = se_static entry,
                    d_isExhaustion = (if se_static entry = se_static exhaustion_entry
                                      then Delta suffix else NotExhaustion),
                    d_underscore_id = None \<rparr>"
    apply (rule exI [of _ "''Prone''"], rule exI [of _ "[]"],
           rule exI [of _ "None"], rule exI [of _ prone_entry])
    using g2 prone by (simp add: exhaustion_entry_def prone_entry_def)
  then have c2: "isStatusEffect example_env ''Prone'' = Inr (Some ?d2)"
    using isStatusEffect_classification [OF find_example_exhaustion, of "''Prone''" ?d2]
      setting by blast
  show ?thesis
    using c1 c2 by simp
qed

section \<open>Removal\<close>

lemma find_filter: "find P (filter Q xs) = find (\<lambda>x. Q x \<and> P x) xs"
  by (induction xs) auto

lemma find_no_match: "\<not> list_ex P xs \<Longrightarrow> find P xs = None"
  by (induction xs) auto

lemma find_first_match: "\<not> list_ex P pre \<Longrightarrow> P m \<Longrightarrow> find P (pre @ m # post) = Some m"
  by (induction pre) auto

lemma remove1_first_match: "\<not> list_ex P pre \<Longrightarrow> P m \<Longrightarrow> remove1 m (pre @ m # post) = pre @ post"
  by (induction pre) auto

lemma removeEffect_find:
  assumes "getActorByUuid w u = Some a"
  shows "EffectHandler_removeEffect w effectID u origin =
           (case find (applied_match effectID origin) (a_effects a) of
              None \<Rightarrow> Inr w
            | Some e \<Rightarrow> Inr (deleteEffect w u e))"
proof -
  have "(\<lambda>x. \<not> e_disabled (data x) \<and> isConvenient x \<and> matchesID effectID x \<and> eff_origin x = origin)
          = applied_match effectID origin" if "truthy origin"
    using that by (auto simp: applied_match_def fun_eq_iff)
  moreover have "(\<lambda>x. \<not> e_disabled (data x) \<and> isConvenient x \<and> matchesID effectID x)
          = applied_match effectID origin" if "\<not> truthy origin"
    using that by (auto simp: applied_match_def fun_eq_iff)
  ultimately show ?thesis
    using assms
    by (simp add: EffectHandler_removeEffect_def appliedEffects_def find_filter Let_def)
qed

lemma updateEffects_resolved:
  "getActorByUuid w u = Some a \<Longrightarrow>
     updateEffects w u f = w\<lparr>actors := (actors w)(u \<mapsto> a\<lparr>a_effects := f (a_effects a)\<rparr>)\<rparr>"
  by (auto simp: updateEffects_def getActorByUuid_def fun_eq_iff)

text \<open>
  Claim C9, amended. On a resolved actor, \<^verbatim>\<open>EffectHandler.removeEffect\<close> leaves the state as
  it is when no applied effect that is marked convenient matches the identifier (by
  identity token or by name) and, when an origin is supplied, the origin; otherwise it
  deletes the first such effect of the actor's list and nothing else. Only applied
  effects are searched.
\<close>

theorem removeEffect_first_applied_match:
  assumes "getActorByUuid w u = Some a"
  shows "(\<not> list_ex (applied_match effectID origin) (a_effects a)
            \<longrightarrow> EffectHandler_removeEffect w effectID u origin = Inr w)
       \<and> (\<forall>pre m post.
             a_effects a = pre @ m # post \<and> applied_match effectID origin m
             \<and> \<not> list_ex (applied_match effectID origin) pre
             \<longrightarrow> EffectHandler_removeEffect w effectID u origin
                   = Inr (w\<lparr>actors := (actors w)(u \<mapsto> a\<lparr>a_effects := pre @ post\<rparr>)\<rparr>))"
proof (intro conjI impI allI)
  assume "\<not> list_ex (applied_match effectID origin) (a_effects a)"
  then show "EffectHandler_removeEffect w effectID u origin = Inr w"
    by (simp add: removeEffect_find [OF assms] find_no_match)
next
  fix pre m post
  assume h: "a_effects a = pre @ m # post \<and> applied_match effectID origin m
             \<and> \<not> list_ex (applied_match effectID origin) pre"
  then have "find (applied_match effectID origin) (a_effects a) = Some m"
    by (simp add: find_first_match)
  moreover have "remove1 m (a_effects a) = pre @ post"
    using h remove1_first_match [of "applied_match effectID origin" pre m post] by simp
  ultimately show "EffectHandler_removeEffect w effectID u origin
                   = Inr (w\<lparr>actors := (actors w)(u \<mapsto> a\<lparr>a_effects := pre @ post\<rparr>)\<rparr>)"
    by (simp add: removeEffect_find [OF assms] deleteEffect_def updateEffects_resolved [OF assms])
qed

text \<open>
  Claim C9 as stated fails when the matching effect is disabled: it is marked convenient,
  matches the name and the origin, and is not deleted.
\<close>

theorem removeEffect_disabled_match_counterexample:
  "isConvenient (instance_effect ''e1'' ''Bless'' (Some ''Item.x'') True True)
   \<and> matchesID (Some ''Bless'') (instance_effect ''e1'' ''Bless'' (Some ''Item.x'') True True)
   \<and> eff_origin (instance_effect ''e1'' ''Bless'' (Some ''Item.x'') True True) = Some ''Item.x''
   \<and> effects_of (example_world [instance_effect ''e1'' ''Bless'' (Some ''Item.x'') True True]) ''Actor.a''
       = [instance_effect ''e1'' ''Bless'' (Some ''Item.x'') True True]
   \<and> EffectHandler_removeEffect
        (example_world [instance_effect ''e1'' ''Bless'' (Some ''Item.x'') True True])
        (Some ''Bless'') ''Actor.a'' (Some ''Item.x'')
       = Inr (example_world [instance_effect ''e1'' ''Bless'' (Some ''Item.x'') True True])"
  by (simp add: isConvenient_def matchesID_def instance_effect_def effects_of_def
      example_world_def example_actor_def EffectHandler_removeEffect_def getActorByUuid_def
      appliedEffects_def truthy_def)

theorem removeEffect_first_applied_match_witness:
  "EffectHandler_removeEffect
     (example_world [instance_effect ''e1'' ''Bless'' (Some ''Item.x'') False True,
                     instance_effect ''e2'' ''Bless'' (Some ''Item.y'') False True,
                     instance_effect ''e3'' ''Bless'' (Some ''Item.y'') False True])
     (Some ''Bless'') ''Actor.a'' (Some ''Item.y'')
   = Inr ((example_world [instance_effect ''e1'' ''Bless'' (Some ''Item.x'') False True,
                     instance_effect ''e2'' ''Bless'' (Some ''Item.y'') False True,
                     instance_effect ''e3'' ''Bless'' (Some ''Item.y'') False True])
           \<lparr>actors := (actors (example_world [instance_effect ''e1'' ''Bless'' (Some ''Item.x'') False True,
                     instance_effect ''e2'' ''Bless'' (Some ''Item.y'') False True,
                     instance_effect ''e3'' ''Bless'' (Some ''Item.y'') False True]))
              (''Actor.a'' \<mapsto> (example_actor [instance_effect ''e1'' ''Bless'' (Some ''Item.x'') False True,
                     instance_effect ''e2'' ''Bless'' (Some ''Item.y'') False True,
                     instance_effect ''e3'' ''Bless'' (Some ''Item.y'') False True])
                 \<lparr>a_effects := [instance_effect ''e1'' ''Bless'' (Some ''Item.x'') False True,
                                instance_effect ''e3'' ''Bless'' (Some ''Item.y'') False True]\<rparr>)\<rparr>)
   \<and> EffectHandler_removeEffect
       (example_world [instance_effect ''e1'' ''Bless'' (Some ''Item.x'') False True])
       (Some ''Bless'') ''Actor.a'' (Some ''Item.z'')
     = Inr (example_world [instance_effect ''e1'' ''Bless'' (Some ''Item.x'') False True])"
proof -
  let ?e1 = "instance_effect ''e1'' ''Bless'' (Some ''Item.x'') False True"
  let ?e2 = "instance_effect ''e2'' ''Bless'' (Some ''Item.y'') False True"
  let ?e3 = "instance_effect ''e3'' ''Bless'' (Some ''Item.y'') False True"
  have actor3: "getActorByUuid (example_world [?e1, ?e2, ?e3]) ''Actor.a''
                  = Some (example_actor [?e1, ?e2, ?e3])"
    by (simp add: getActorByUuid_def example_world_def)
  have actor1: "getActorByUuid (example_world [?e1]) ''Actor.a'' = Some (example_actor [?e1])"
    by (simp add: getActorByUuid_def example_world_def)
  have split: "a_effects (example_actor [?e1, ?e2, ?e3]) = [?e1] @ ?e2 # [?e3]
               \<and> applied_match (Some ''Bless'') (Some ''Item.y'') ?e2
               \<and> \<not> list_ex (applied_match (Some ''Bless'') (Some ''Item.y'')) [?e1]"
    by (simp add: example_actor_def applied_match_def instance_effect_def isConvenient_def
        matchesID_def truthy_def)
  have nomatch: "\<not> list_ex (applied_match (Some ''Bless'') (Some ''Item.z''))
                     (a_effects (example_actor [?e1]))"
    by (simp add: example_actor_def applied_match_def instance_effect_def isConvenient_def
        matchesID_def truthy_def)
  show ?thesis
    using removeEffect_first_applied_match [OF actor3, of "Some ''Bless''" "Some ''Item.y''"]
      removeEffect_first_applied_match [OF actor1, of "Some ''Bless''" "Some ''Item.z''"]
      split nomatch
    by (metis append_Cons append_Nil)
qed

section \<open>Toggling\<close>

lemmas example_defs =
  example_env_def example_world_def example_actor_def prone_entry_def exhaustion_entry_def
  plain_effect_def instance_effect_def status_instance_def

lemmas regex_defs =
  regex_match_def match_suffix_def is_word_def is_digit_def is_space_def is_sign_def

lemmas store_defs =
  getActorByUuid_def updateEffects_def createEffect_def deleteEffect_def
  deleteEmbeddedDocuments_def notify_def appliedEffects_def isConvenient_def effects_of_def

lemma find_never: "find (\<lambda>_. False) xs = None"
  by (induction xs) auto

lemma removeEffect_without_identifier:
  "getActorByUuid w u = Some a \<Longrightarrow> EffectHandler_removeEffect w None u origin = Inr w"
  by (simp add: EffectHandler_removeEffect_def matchesID_def find_never)

lemma hasEffectApplied_resolved:
  "hasEffectApplied w effectName u \<Longrightarrow> \<exists>a. getActorByUuid w u = Some a"
  by (simp add: hasEffectApplied_def split: option.splits)

lemma toggle_applied_unchanged:
  assumes "hasEffectApplied w effectName u"
  shows "toggleEffect_target n en w effectName overlay u None active = Some (Inr w)"
proof -
  obtain a where "getActorByUuid w u = Some a"
    using hasEffectApplied_resolved [OF assms] by blast
  then show ?thesis
    using assms by (simp add: toggleEffect_target_def removeEffect_without_identifier)
qed

text \<open>
  Claim C1 says that toggling a catalog effect twice returns the actor to where it was.
  \<^verbatim>\<open>EffectHandler.toggleEffect\<close> calls \<^verbatim>\<open>this.removeEffect({ effectName, uuid })\<close>, and
  \<^verbatim>\<open>removeEffect\<close> reads \<^verbatim>\<open>effectID\<close>, which that argument does not have: nothing matches and
  nothing is removed (\<open>toggle_applied_unchanged\<close>). On an actor without the effect the
  first toggle adds it and the second leaves it applied.
\<close>

theorem toggle_twice_keeps_effect:
  "\<not> hasEffectApplied (example_world []) ''Bless'' ''Actor.a''
   \<and> EffectHandler_toggleEffect 1 example_env (example_world []) ''Bless'' None [''Actor.a''] None None
       = Some (Inr (example_world [instance_effect ''id'' ''Bless'' None False True]))
   \<and> EffectHandler_toggleEffect 1 example_env
         (example_world [instance_effect ''id'' ''Bless'' None False True])
         ''Bless'' None [''Actor.a''] None None
       = Some (Inr (example_world [instance_effect ''id'' ''Bless'' None False True]))
   \<and> hasEffectApplied (example_world [instance_effect ''id'' ''Bless'' None False True])
         ''Bless'' ''Actor.a''"
proof -
  let ?b = "instance_effect ''id'' ''Bless'' None False True"
  have absent: "\<not> hasEffectApplied (example_world []) ''Bless'' ''Actor.a''"
    by (simp add: hasEffectApplied_def store_defs example_defs)
  have present: "hasEffectApplied (example_world [?b]) ''Bless'' ''Actor.a''"
    by (simp add: hasEffectApplied_def store_defs example_defs)
  have found: "findEffectByName example_env ''Bless'' = Some (plain_effect ''Bless'' [])"
    by (simp add: findEffectByName_def findCustomEffectByName_def example_defs)
  have first: "EffectHandler_toggleEffect 1 example_env (example_world []) ''Bless'' None
                 [''Actor.a''] None None = Some (Inr (example_world [?b]))"
    using absent found
    by (simp add: toggleEffect_target_def addEffect_prepare_def store_defs example_defs
        fun_eq_iff)
  have second: "EffectHandler_toggleEffect 1 example_env (example_world [?b]) ''Bless'' None
                  [''Actor.a''] None None = Some (Inr (example_world [?b]))"
    by (simp add: toggle_applied_unchanged [OF present])
  show ?thesis
    using absent present first second by simp
qed

text \<open>
  Claim C2 says that every instance this core creates carries the is-convenient marker.
  The status branch of \<^verbatim>\<open>EffectHandler.toggleEffect\<close> creates the factory's instance as it is,
  without the marker that \<^verbatim>\<open>EffectInterface.addEffect\<close> and \<^verbatim>\<open>addEffectWith\<close> stamp on it:
  toggling \<^verbatim>\<open>Prone\<close> on an actor without it leaves an instance that is not marked.
\<close>

theorem toggle_status_creates_unmarked:
  "isStatusEffect example_env ''Prone''
     = Inr (Some \<lparr> d_id = ''prone'', d_staticID = ''dnd5eprone000000'',
                   d_isExhaustion = NotExhaustion, d_underscore_id = None \<rparr>)
   \<and> EffectInterface_toggleEffect 0 example_env (example_world []) ''Prone'' None [''Actor.a'']
       = Some (Inr (example_world [status_instance ''dnd5eprone000000'' ''Prone'' [''prone''] False]))
   \<and> \<not> isConvenient (status_instance ''dnd5eprone000000'' ''Prone'' [''prone''] False)"
proof -
  have classify: "isStatusEffect example_env ''Prone''
     = Inr (Some \<lparr> d_id = ''prone'', d_staticID = ''dnd5eprone000000'',
                   d_isExhaustion = NotExhaustion, d_underscore_id = None \<rparr>)"
    by (simp add: isStatusEffect_def regex_defs example_defs)
  have "EffectInterface_toggleEffect 0 example_env (example_world []) ''Prone'' None [''Actor.a'']
       = Some (Inr (example_world [status_instance ''dnd5eprone000000'' ''Prone'' [''prone''] False]))"
    unfolding EffectInterface_toggleEffect_def classify
    by (simp add: toggleEffect_target_def toggleEffect_existing_def truthy_def
        fromStatusEffect_def store_defs example_defs fun_eq_iff)
  then show ?thesis
    using classify by (simp add: isConvenient_def status_instance_def)
qed

text \<open>
  Claim C6 says that the privileged toggle looks the existing instance up by the fixed
  identity token. The descriptor holds the token as \<^verbatim>\<open>staticID\<close> and the toggle reads
  \<^verbatim>\<open>_id\<close>, so it always searches by single status instead: an effect of another identity
  token that grants only the status is deleted although no instance has the token, and an
  instance that has the token but grants two statuses is not found, so a second one is
  created.
\<close>

theorem toggle_status_ignores_token:
  "isStatusEffect example_env ''Prone''
     = Inr (Some \<lparr> d_id = ''prone'', d_staticID = ''dnd5eprone000000'',
                   d_isExhaustion = NotExhaustion, d_underscore_id = None \<rparr>)
   \<and> map eff_id
        (effects_of (example_world [status_instance ''other'' ''Knocked down'' [''prone''] False])
           ''Actor.a'') = [''other'']
   \<and> EffectInterface_toggleEffect 0 example_env
        (example_world [status_instance ''other'' ''Knocked down'' [''prone''] False])
        ''Prone'' None [''Actor.a'']
       = Some (Inr (example_world []))
   \<and> EffectInterface_toggleEffect 0 example_env
        (example_world [status_instance ''dnd5eprone000000'' ''Prone'' [''prone'', ''incapacitated''] False])
        ''Prone'' None [''Actor.a'']
       = Some (Inr (example_world
           [status_instance ''dnd5eprone000000'' ''Prone'' [''prone'', ''incapacitated''] False,
            status_instance ''dnd5eprone000000'' ''Prone'' [''prone''] False]))"
proof -
  have classify: "isStatusEffect example_env ''Prone''
     = Inr (Some \<lparr> d_id = ''prone'', d_staticID = ''dnd5eprone000000'',
                   d_isExhaustion = NotExhaustion, d_underscore_id = None \<rparr>)"
    by (simp add: isStatusEffect_def regex_defs example_defs)
  have no_token: "map eff_id
        (effects_of (example_world [status_instance ''other'' ''Knocked down'' [''prone''] False])
           ''Actor.a'') = [''other'']"
    by (simp add: store_defs example_defs)
  have foreign: "EffectInterface_toggleEffect 0 example_env
        (example_world [status_instance ''other'' ''Knocked down'' [''prone''] False])
        ''Prone'' None [''Actor.a'']
       = Some (Inr (example_world []))"
    unfolding EffectInterface_toggleEffect_def classify
    by (simp add: toggleEffect_target_def toggleEffect_existing_def truthy_def
        fromStatusEffect_def store_defs example_defs fun_eq_iff)
  have twice: "EffectInterface_toggleEffect 0 example_env
        (example_world [status_instance ''dnd5eprone000000'' ''Prone'' [''prone'', ''incapacitated''] False])
        ''Prone'' None [''Actor.a'']
       = Some (Inr (example_world
           [status_instance ''dnd5eprone000000'' ''Prone'' [''prone'', ''incapacitated''] False,
            status_instance ''dnd5eprone000000'' ''Prone'' [''prone''] False]))"
    unfolding EffectInterface_toggleEffect_def classify
    by (simp add: toggleEffect_target_def toggleEffect_existing_def truthy_def
        fromStatusEffect_def store_defs example_defs fun_eq_iff)
  show ?thesis
    using classify no_token foreign twice by simp
qed

text \<open>
  Claim C3 says that an issuer-side operation reports an actor that is not found and
  returns. \<^verbatim>\<open>EffectInterface.addEffect\<close> reads \<^verbatim>\<open>actor.token\<close> before it tests the actor: for
  a UUID with no actor it throws and notifies nothing, where \<^verbatim>\<open>removeEffect\<close> notifies.
  \<^verbatim>\<open>EffectInterface.toggleEffect\<close> does not test the actors of its targets: the relayed toggle
  of a catalog effect throws on the same UUID.
\<close>

theorem addEffect_unresolved_actor_throws:
  "getActorByUuid (example_world []) ''Actor.missing'' = None
   \<and> EffectInterface_addEffect 1 example_env (example_world []) ''Bless'' ''Actor.missing'' None None
       = Some (Inl TypeError)
   \<and> EffectInterface_toggleEffect 1 example_env (example_world []) ''Bless'' None [''Actor.missing'']
       = Some (Inl TypeError)
   \<and> EffectInterface_removeEffect example_env (example_world []) ''Bless'' ''Actor.missing'' None
       = Inr (notify (example_world []) ''Actor Actor.missing could not be found'')"
  by (simp add: EffectInterface_addEffect_def EffectInterface_removeEffect_def
      EffectInterface_toggleEffect_def toggleEffect_target_def hasEffectApplied_def
      isStatusEffect_def regex_defs findEffectByName_def findCustomEffectByName_def
      hasNestedEffects_def getActorByUuid_def example_defs)

section \<open>Unresolved targets of a status toggle\<close>

lemma updateEffects_notifications: "notifications (updateEffects w u f) = notifications w"
  by (simp add: updateEffects_def)

lemma updateEffects_unresolved:
  "(getActorByUuid (updateEffects w u f) v = None) = (getActorByUuid w v = None)"
  by (simp add: updateEffects_def getActorByUuid_def)

lemma toggle_target_status_unresolved:
  "getActorByUuid w u = None \<Longrightarrow>
     toggleEffect_target n en w effectName overlay u (Some d) active = Some (Inr w)"
  by (simp add: toggleEffect_target_def)

lemma toggle_target_status_frame:
  assumes "toggleEffect_target n en w effectName overlay u (Some d) active = Some (Inr w1)"
  shows "notifications w1 = notifications w
         \<and> (\<forall>v. (getActorByUuid w1 v = None) = (getActorByUuid w v = None))"
  using assms
  by (auto simp: toggleEffect_target_def Let_def createEffect_def deleteEmbeddedDocuments_def
      updateEffects_notifications updateEffects_unresolved
      split: option.splits if_splits sum.splits)

lemma toggle_target_status_returns:
  "\<exists>r. toggleEffect_target n en w effectName overlay u (Some d) active = Some r"
  by (simp add: toggleEffect_target_def Let_def split: option.splits sum.splits)

lemma toggle_target_status_registered:
  assumes "find (\<lambda>e. se_id e = d_id d) (statusEffects en) \<noteq> None"
  shows "\<exists>w1. toggleEffect_target n en w effectName overlay u (Some d) active = Some (Inr w1)"
  using assms
  by (auto simp: toggleEffect_target_def fromStatusEffect_def Let_def split: option.splits)

lemma toggle_status_filter:
  "EffectHandler_toggleEffect n en w effectName overlay uuids (Some d) active
     = EffectHandler_toggleEffect n en w effectName overlay
         (filter (\<lambda>u. getActorByUuid w u \<noteq> None) uuids) (Some d) active"
proof (induction uuids arbitrary: w)
  case Nil
  show ?case by simp
next
  case (Cons u uuids)
  show ?case
  proof (cases "getActorByUuid w u")
    case None
    then show ?thesis
      using Cons.IH [of w] by (simp add: toggle_target_status_unresolved)
  next
    case (Some a)
    obtain r where r: "toggleEffect_target n en w effectName overlay u (Some d) active = Some r"
      using toggle_target_status_returns by blast
    have keep: "filter (\<lambda>u. getActorByUuid w u \<noteq> None) (u # uuids)
                  = u # filter (\<lambda>u. getActorByUuid w u \<noteq> None) uuids"
      using Some by simp
    show ?thesis
    proof (cases r)
      case (Inl err)
      then show ?thesis unfolding keep using r by simp
    next
      case (Inr w1)
      have same: "filter (\<lambda>v. getActorByUuid w1 v \<noteq> None) uuids
                    = filter (\<lambda>v. getActorByUuid w v \<noteq> None) uuids"
        using toggle_target_status_frame r Inr by (metis (mono_tags, lifting))
      have "EffectHandler_toggleEffect n en w effectName overlay (u # uuids) (Some d) active
              = EffectHandler_toggleEffect n en w1 effectName overlay uuids (Some d) active"
        using r Inr by simp
      also have "\<dots> = EffectHandler_toggleEffect n en w1 effectName overlay
                          (filter (\<lambda>v. getActorByUuid w v \<noteq> None) uuids) (Some d) active"
        using Cons.IH [of w1] unfolding same .
      also have "\<dots> = EffectHandler_toggleEffect n en w effectName overlay
                          (filter (\<lambda>u. getActorByUuid w u \<noteq> None) (u # uuids)) (Some d) active"
        unfolding keep using r Inr by simp
      finally show ?thesis .
    qed
  qed
qed

lemma toggle_status_notifications:
  "EffectHandler_toggleEffect n en w effectName overlay uuids (Some d) active = Some (Inr w')
     \<Longrightarrow> notifications w' = notifications w"
proof (induction uuids arbitrary: w)
  case Nil
  then show ?case by simp
next
  case (Cons u uuids)
  obtain r where r: "toggleEffect_target n en w effectName overlay u (Some d) active = Some r"
    using toggle_target_status_returns by blast
  show ?case
  proof (cases r)
    case (Inl err)
    then show ?thesis using r Cons.prems by simp
  next
    case (Inr w1)
    then have "notifications w' = notifications w1"
      using r Cons by simp
    then show ?thesis
      using toggle_target_status_frame r Inr by simp
  qed
qed

lemma toggle_status_registered:
  assumes "find (\<lambda>e. se_id e = d_id d) (statusEffects en) \<noteq> None"
  shows "\<exists>w'. EffectHandler_toggleEffect n en w effectName overlay uuids (Some d) active
                 = Some (Inr w')"
proof (induction uuids arbitrary: w)
  case Nil
  show ?case by simp
next
  case (Cons u uuids)
  obtain w1 where "toggleEffect_target n en w effectName overlay u (Some d) active = Some (Inr w1)"
    using toggle_target_status_registered [OF assms] by blast
  then show ?case
    using Cons.IH [of w1] by simp
qed

lemma filter_none_resolved:
  "list_all (\<lambda>u. getActorByUuid w u = None) uuids \<Longrightarrow>
     filter (\<lambda>u. getActorByUuid w u \<noteq> None) uuids = []"
  by (induction uuids) auto

lemma world_upd_same: "actors w u = x \<Longrightarrow> w\<lparr>actors := (actors w)(u := x)\<rparr> = w"
  by (cases w) (auto simp: fun_eq_iff)

lemma toggle_target_status_step:
  assumes "find (\<lambda>e. se_id e = d_id d) (statusEffects en) \<noteq> None"
  shows "\<exists>w1. toggleEffect_target n en w effectName overlay u (Some d) active = Some (Inr w1)
           \<and> notifications w1 = notifications w
           \<and> actors w1 = (actors w)(u := map_option (toggled_actor en d overlay active) (actors w u))"
proof (cases "getActorByUuid w u")
  case None
  then show ?thesis
    by (auto simp: toggleEffect_target_def getActorByUuid_def fun_eq_iff)
next
  case (Some a)
  obtain effect where "fromStatusEffect en (d_id d) = Inr effect"
    using assms by (auto simp: fromStatusEffect_def)
  then show ?thesis
    using Some
    by (auto simp: toggleEffect_target_def toggled_actor_def Let_def createEffect_def
        deleteEmbeddedDocuments_def updateEffects_def getActorByUuid_def fun_eq_iff)
qed

lemma toggle_status_every_target:
  assumes "find (\<lambda>e. se_id e = d_id d) (statusEffects en) \<noteq> None"
  shows "\<exists>w'. EffectHandler_toggleEffect n en w effectName overlay uuids (Some d) active
                 = Some (Inr w')
           \<and> notifications w' = notifications w
           \<and> (\<forall>u. actors w' u
                    = map_option ((toggled_actor en d overlay active) ^^ count_list uuids u)
                        (actors w u))"
proof (induction uuids arbitrary: w)
  case Nil
  show ?case by (simp add: option.map_ident)
next
  case (Cons v uuids)
  obtain w1 where step: "toggleEffect_target n en w effectName overlay v (Some d) active
                           = Some (Inr w1)"
    and notes1: "notifications w1 = notifications w"
    and actors1: "actors w1 = (actors w)(v := map_option (toggled_actor en d overlay active)
                                                 (actors w v))"
    using toggle_target_status_step [OF assms] by blast
  obtain w' where run: "EffectHandler_toggleEffect n en w1 effectName overlay uuids (Some d) active
                          = Some (Inr w')"
    and notes': "notifications w' = notifications w1"
    and actors': "\<forall>u. actors w' u
                    = map_option ((toggled_actor en d overlay active) ^^ count_list uuids u)
                        (actors w1 u)"
    using Cons.IH [of w1] by blast
  have "actors w' u
          = map_option ((toggled_actor en d overlay active) ^^ count_list (v # uuids) u)
              (actors w u)" for u
  proof (cases "u = v")
    case True
    then show ?thesis
      using actors' actors1
      by (simp add: option.map_comp funpow_swap1 comp_def del: funpow.simps)
         (simp add: funpow_Suc_right comp_def del: funpow.simps)
  next
    case False
    then show ?thesis
      using actors' actors1 by simp
  qed
  then show ?case
    using step run notes1 notes' by simp
qed


text \<open>
  Claim C10. In the status branch of \<^verbatim>\<open>EffectHandler.toggleEffect\<close> a UUID with no actor is
  skipped: the run equals the run on the resolved targets alone, a run on unresolved
  targets only changes nothing, and no run adds a notification. With a descriptor whose id
  is in the vocabulary every run returns without a throw, and every target is processed:
  each actor ends as the status branch leaves it after as many passes as its UUID stands
  in the list, a UUID with no actor still has none, and nothing else changes.
\<close>

theorem toggle_status_skips_unresolved:
  "EffectHandler_toggleEffect n en w effectName overlay uuids (Some d) active
     = EffectHandler_toggleEffect n en w effectName overlay
         (filter (\<lambda>u. getActorByUuid w u \<noteq> None) uuids) (Some d) active
   \<and> (list_all (\<lambda>u. getActorByUuid w u = None) uuids \<longrightarrow>
        EffectHandler_toggleEffect n en w effectName overlay uuids (Some d) active = Some (Inr w))
   \<and> (\<forall>w'. EffectHandler_toggleEffect n en w effectName overlay uuids (Some d) active
               = Some (Inr w') \<longrightarrow> notifications w' = notifications w)
   \<and> (find (\<lambda>e. se_id e = d_id d) (statusEffects en) \<noteq> None \<longrightarrow>
        (\<exists>w'. EffectHandler_toggleEffect n en w effectName overlay uuids (Some d) active
                 = Some (Inr w')
              \<and> notifications w' = notifications w
              \<and> (\<forall>u. actors w' u
                       = map_option ((toggled_actor en d overlay active) ^^ count_list uuids u)
                           (actors w u))))"
proof (intro conjI impI allI)
  show "EffectHandler_toggleEffect n en w effectName overlay uuids (Some d) active
     = EffectHandler_toggleEffect n en w effectName overlay
         (filter (\<lambda>u. getActorByUuid w u \<noteq> None) uuids) (Some d) active"
    by (rule toggle_status_filter)
next
  assume "list_all (\<lambda>u. getActorByUuid w u = None) uuids"
  then show "EffectHandler_toggleEffect n en w effectName overlay uuids (Some d) active
               = Some (Inr w)"
    using toggle_status_filter [of n en w effectName overlay uuids d active]
    by (simp only: filter_none_resolved EffectHandler_toggleEffect.simps)
next
  fix w'
  assume "EffectHandler_toggleEffect n en w effectName overlay uuids (Some d) active = Some (Inr w')"
  then show "notifications w' = notifications w"
    by (rule toggle_status_notifications)
next
  assume "find (\<lambda>e. se_id e = d_id d) (statusEffects en) \<noteq> None"
  then show "\<exists>w'. EffectHandler_toggleEffect n en w effectName overlay uuids (Some d) active
                 = Some (Inr w')
              \<and> notifications w' = notifications w
              \<and> (\<forall>u. actors w' u
                       = map_option ((toggled_actor en d overlay active) ^^ count_list uuids u)
                           (actors w u))"
    by (rule toggle_status_every_target)
qed

theorem toggle_status_skips_unresolved_witness:
  "EffectHandler_toggleEffect 0 example_env
     (example_world2 [] [status_instance ''dnd5eprone000000'' ''Prone'' [''prone''] False])
     ''Prone'' None [''Actor.missing'', ''Actor.a'', ''Actor.gone'', ''Actor.b'']
     (Some \<lparr> d_id = ''prone'', d_staticID = ''dnd5eprone000000'',
             d_isExhaustion = NotExhaustion, d_underscore_id = None \<rparr>) None
   = Some (Inr (example_world2 [status_instance ''dnd5eprone000000'' ''Prone'' [''prone''] False] []))
   \<and> EffectHandler_toggleEffect 0 example_env (example_world []) ''Prone'' None
     [''Actor.missing'', ''Actor.gone'']
     (Some \<lparr> d_id = ''prone'', d_staticID = ''dnd5eprone000000'',
             d_isExhaustion = NotExhaustion, d_underscore_id = None \<rparr>) None
   = Some (Inr (example_world []))"
proof -
  let ?d = "\<lparr> d_id = ''prone'', d_staticID = ''dnd5eprone000000'',
               d_isExhaustion = NotExhaustion, d_underscore_id = None \<rparr>"
  let ?p = "status_instance ''dnd5eprone000000'' ''Prone'' [''prone''] False"
  let ?us = "[''Actor.missing'', ''Actor.a'', ''Actor.gone'', ''Actor.b'']"
  have registered: "find (\<lambda>e. se_id e = d_id ?d) (statusEffects example_env) \<noteq> None"
    by (simp add: example_defs)
  have none: "list_all (\<lambda>u. getActorByUuid (example_world []) u = None)
                [''Actor.missing'', ''Actor.gone'']"
    by (simp add: getActorByUuid_def example_world_def)
  have a: "toggled_actor example_env ?d None None (example_actor []) = example_actor [?p]"
    by (simp add: toggled_actor_def toggleEffect_existing_def truthy_def fromStatusEffect_def
        example_defs)
  have b: "toggled_actor example_env ?d None None (example_actor [?p]) = example_actor []"
    by (simp add: toggled_actor_def toggleEffect_existing_def truthy_def example_defs)
  obtain w' where run: "EffectHandler_toggleEffect 0 example_env (example_world2 [] [?p])
                          ''Prone'' None ?us (Some ?d) None = Some (Inr w')"
    and frame: "notifications w' = notifications (example_world2 [] [?p])"
    and every: "\<forall>u. actors w' u
                  = map_option ((toggled_actor example_env ?d None None) ^^ count_list ?us u)
                      (actors (example_world2 [] [?p]) u)"
    using toggle_status_skips_unresolved [of 0 example_env "example_world2 [] [?p]" "''Prone''"
        None ?us ?d None] registered
    by blast
  have "actors w' u = actors (example_world2 [?p] []) u" for u
    using every [rule_format, of u] a b by (simp add: example_world2_def)
  then have "w' = example_world2 [?p] []"
    using frame by (cases w') (auto simp: example_world2_def fun_eq_iff)
  then have first: "EffectHandler_toggleEffect 0 example_env (example_world2 [] [?p])
                      ''Prone'' None ?us (Some ?d) None = Some (Inr (example_world2 [?p] []))"
    using run by simp
  have second: "EffectHandler_toggleEffect 0 example_env (example_world []) ''Prone'' None
                 [''Actor.missing'', ''Actor.gone''] (Some ?d) None = Some (Inr (example_world []))"
    using toggle_status_skips_unresolved [of 0 example_env "example_world []" "''Prone''" None
        "[''Actor.missing'', ''Actor.gone'']" ?d None] none
    by blast
  show ?thesis
    using first second by simp
qed

section \<open>Adding a status effect\<close>

lemma find_agree: "(\<And>x. x \<in> set xs \<Longrightarrow> P x = Q x) \<Longrightarrow> find P xs = find Q xs"
  by (induction xs) auto

lemma find_distinct_key:
  "distinct (map f xs) \<Longrightarrow> x \<in> set xs \<Longrightarrow> find (\<lambda>y. f y = f x) xs = Some x"
  by (induction xs) (auto simp: image_iff)

lemma find_Some_holds: "find P xs = Some e \<Longrightarrow> P e \<and> e \<in> set xs"
  by (induction xs) (auto split: if_splits)

lemma remove1_single_match:
  "find P xs = Some e \<Longrightarrow> length (filter P xs) \<le> 1 \<Longrightarrow> remove1 e xs = filter (\<lambda>x. \<not> P x) xs"
proof (induction xs)
  case Nil
  then show ?case by simp
next
  case (Cons x xs)
  show ?case
  proof (cases "P x")
    case True
    then have "e = x" and "filter P xs = []"
      using Cons.prems by auto
    then have "filter (\<lambda>x. \<not> P x) xs = xs"
      by (simp add: filter_empty_conv filter_id_conv)
    then show ?thesis
      using True \<open>e = x\<close> by simp
  next
    case False
    then have "find P xs = Some e" and "length (filter P xs) \<le> 1"
      using Cons.prems by auto
    moreover have "e \<noteq> x"
      using False find_Some_holds [OF \<open>find P xs = Some e\<close>] by auto
    ultimately show ?thesis
      using False Cons.IH by simp
  qed
qed

lemma filter_no_match: "find P xs = None \<Longrightarrow> filter (\<lambda>x. \<not> P x) xs = xs"
  by (induction xs) (auto split: if_splits)

lemma updateEffects_same:
  "getActorByUuid w u = Some a \<Longrightarrow> f (a_effects a) = a_effects a \<Longrightarrow> updateEffects w u f = w"
  by (auto simp: updateEffects_def getActorByUuid_def fun_eq_iff)

lemma updateEffects_actor:
  "getActorByUuid w u = Some a \<Longrightarrow>
     getActorByUuid (updateEffects w u f) u = Some (a\<lparr>a_effects := f (a_effects a)\<rparr>)"
  by (simp add: updateEffects_def getActorByUuid_def)

lemma updateEffects_twice:
  "updateEffects (updateEffects w u f) u g = updateEffects w u (\<lambda>es. g (f es))"
  by (auto simp: updateEffects_def fun_eq_iff option.map_comp comp_def split: option.splits)

lemma effects_of_updateEffects:
  "getActorByUuid w u = Some a \<Longrightarrow> effects_of (updateEffects w u f) u = f (a_effects a)"
  by (simp add: effects_of_def updateEffects_def getActorByUuid_def)

lemma hasActiveHUD_effects: "hasActiveHUD (a\<lparr>a_effects := es\<rparr>) = hasActiveHUD a"
  by (simp add: hasActiveHUD_def split: option.splits bool.splits)

text \<open>The removal of the instance with the token, as both sides of the relay attempt it.\<close>

lemma remove_token_instance:
  assumes actor: "getActorByUuid w u = Some a"
    and marked: "list_all (\<lambda>e. eff_id e = tok \<longrightarrow> isConvenient e \<and> \<not> e_disabled (data e)) (a_effects a)"
    and names: "list_all (\<lambda>e. eff_name e \<noteq> tok) (a_effects a)"
    and one: "length (filter (\<lambda>e. eff_id e = tok) (a_effects a)) \<le> 1"
  shows "(case find (\<lambda>e. eff_id e = tok) (appliedEffects a) of
            None \<Rightarrow> Inr w
          | Some e \<Rightarrow> EffectHandler_removeEffect w (Some (eff_id e)) u None)
         = Inr (updateEffects w u (filter (\<lambda>e. eff_id e \<noteq> tok)))"
proof -
  have applied: "find (\<lambda>e. eff_id e = tok) (appliedEffects a) = find (\<lambda>e. eff_id e = tok) (a_effects a)"
    unfolding appliedEffects_def find_filter
    using marked by (intro find_agree) (auto simp: list_all_iff)
  show ?thesis
  proof (cases "find (\<lambda>e. eff_id e = tok) (a_effects a)")
    case None
    then have "filter (\<lambda>e. eff_id e \<noteq> tok) (a_effects a) = a_effects a"
      using filter_no_match [of "\<lambda>e. eff_id e = tok"] by simp
    then show ?thesis
      using None applied updateEffects_same [OF actor] by simp
  next
    case (Some e)
    then have e: "eff_id e = tok"
      using find_Some_holds [OF Some] by simp
    have "find (applied_match (Some tok) None) (a_effects a) = find (\<lambda>e. eff_id e = tok) (a_effects a)"
      using marked names
      by (intro find_agree) (auto simp: list_all_iff applied_match_def matchesID_def truthy_def)
    then have "EffectHandler_removeEffect w (Some tok) u None = Inr (deleteEffect w u e)"
      using Some by (simp add: removeEffect_find [OF actor])
    moreover have "remove1 e (a_effects a) = filter (\<lambda>e. eff_id e \<noteq> tok) (a_effects a)"
      using remove1_single_match [OF Some one] by simp
    then have "deleteEffect w u e = updateEffects w u (filter (\<lambda>e. eff_id e \<noteq> tok))"
      using actor by (auto simp: deleteEffect_def updateEffects_def getActorByUuid_def fun_eq_iff)
    ultimately show ?thesis
      using Some applied e by simp
  qed
qed

lemma isStatusEffect_entry:
  assumes "isStatusEffect en effectName = Inr (Some d)"
  shows "\<exists>entry ex. entry \<in> set (statusEffects en) \<and> d_id d = se_id entry
           \<and> d_staticID d = se_static entry
           \<and> find (\<lambda>e. se_id e = ''exhaustion'') (statusEffects en) = Some ex"
  using assms
  by (auto simp: isStatusEffect_def Let_def split: if_splits option.splits dest: find_Some_holds)

lemma fromStatusEffect_descriptor:
  assumes "isStatusEffect en effectName = Inr (Some d)"
    and "distinct (map se_id (statusEffects en))"
  shows "\<exists>fresh. fromStatusEffect en (d_id d) = Inr fresh \<and> eff_id fresh = d_staticID d"
proof -
  obtain entry where "entry \<in> set (statusEffects en)" and "d_id d = se_id entry"
    and "d_staticID d = se_static entry"
    using isStatusEffect_entry [OF assms(1)] by blast
  then show ?thesis
    using find_distinct_key [OF assms(2), of entry] by (simp add: fromStatusEffect_def)
qed

lemma handler_addEffect_status_absent:
  assumes "getActorByUuid w u = Some a"
    and "find (\<lambda>e. eff_id e = eff_id effect) (a_effects a) = None"
    and "hasActiveHUD a = Inr b"
  shows "EffectHandler_addEffect (Suc m) en w effect u origin overlay (Some d)
           = Some (Inr (createEffect w u effect))"
proof -
  have "find (\<lambda>e. eff_id e = eff_id effect) (appliedEffects a) = None"
    using assms(2) by (auto simp: appliedEffects_def find_None_iff)
  then show ?thesis
    using assms by (simp add: addEffect_status_def)
qed

text \<open>
  When every instance with the fixed identity token is applied and marked convenient, no
  effect is named like the token, at most one instance has the token and the HUD test does
  not throw, \<^verbatim>\<open>EffectInterface.addEffect\<close> removes that instance before it creates the new one.
\<close>

lemma addEffect_status_replaces_marked_instance:
  assumes classify: "isStatusEffect en effectName = Inr (Some d)"
    and vocabulary: "distinct (map se_id (statusEffects en))"
    and actor: "getActorByUuid w u = Some a"
    and hud: "hasActiveHUD a = Inr b"
    and marked: "list_all (\<lambda>e. eff_id e = d_staticID d \<longrightarrow> isConvenient e \<and> \<not> e_disabled (data e))
                   (a_effects a)"
    and names: "list_all (\<lambda>e. eff_name e \<noteq> d_staticID d) (a_effects a)"
    and one: "length (filter (\<lambda>e. eff_id e = d_staticID d) (a_effects a)) \<le> 1"
    and level: "\<forall>t ex. d_isExhaustion d = Delta t
                  \<and> find (\<lambda>e. se_id e = ''exhaustion'') (statusEffects en) = Some ex
                  \<longrightarrow> newExhaustionLevel t (case a_exhaustion a of None \<Rightarrow> 0 | Some c \<Rightarrow> c)
                        (se_levels ex) \<noteq> 0"
  shows "\<exists>w' new. EffectInterface_addEffect (Suc m) en w effectName u origin overlay = Some (Inr w')
           \<and> effects_of w' u = filter (\<lambda>e. eff_id e \<noteq> d_staticID d) (a_effects a) @ [new]
           \<and> eff_id new = d_staticID d \<and> isConvenient new
           \<and> length (filter (\<lambda>e. eff_id e = d_staticID d) (effects_of w' u)) = 1"
proof -
  define tok where "tok = d_staticID d"
  define es1 where "es1 = filter (\<lambda>e. eff_id e \<noteq> tok) (a_effects a)"
  define w1 where "w1 = updateEffects w u (filter (\<lambda>e. eff_id e \<noteq> tok))"
  obtain fresh where fresh: "fromStatusEffect en (d_id d) = Inr fresh" and fresh_id: "eff_id fresh = tok"
    using fromStatusEffect_descriptor [OF classify vocabulary] tok_def by blast
  obtain ex where ex: "find (\<lambda>e. se_id e = ''exhaustion'') (statusEffects en) = Some ex"
    using isStatusEffect_entry [OF classify] by blast
  have removal:
    "(case find (\<lambda>e. eff_id e = tok) (appliedEffects a) of
        None \<Rightarrow> Inr w
      | Some e \<Rightarrow> EffectHandler_removeEffect w (Some (eff_id e)) u None) = Inr w1"
    unfolding w1_def tok_def by (rule remove_token_instance [OF actor marked names one])
  have actor1: "getActorByUuid w1 u = Some (a\<lparr>a_effects := es1\<rparr>)"
    unfolding w1_def es1_def by (rule updateEffects_actor [OF actor])
  have absent: "find (\<lambda>e. eff_id e = tok) es1 = None"
    by (simp add: es1_def find_None_iff)
  have relayed: "EffectHandler_addEffect (Suc m) en w1 effect u origin overlay (Some d)
                   = Some (Inr (createEffect w1 u effect))
                 \<and> effects_of (createEffect w1 u effect) u = es1 @ [effect]"
    if "eff_id effect = tok" for effect
  proof -
    have "EffectHandler_addEffect (Suc m) en w1 effect u origin overlay (Some d)
            = Some (Inr (createEffect w1 u effect))"
      using handler_addEffect_status_absent [OF actor1, of effect b m en origin overlay d]
        absent that hud
      by (simp add: hasActiveHUD_effects)
    moreover have "effects_of (createEffect w1 u effect) u = es1 @ [effect]"
      using effects_of_updateEffects [OF actor1] by (simp add: createEffect_def)
    ultimately show ?thesis by simp
  qed
  have count: "length (filter (\<lambda>e. eff_id e = tok) (es1 @ [effect])) = 1"
    if "eff_id effect = tok" for effect
    using that by (simp add: es1_def)
  show ?thesis
  proof (cases "d_isExhaustion d")
    case NotExhaustion
    define changes where "changes = (case findEffectByName en effectName of
                                None \<Rightarrow> [] | Some found \<Rightarrow> e_changes (data found))"
    define new where "new = Effect ((data fresh)\<lparr>e_isConvenient := True,
                                     e_changes := (if length changes > 0 then changes
                                                   else e_changes (data fresh))\<rparr>)
                             (subEffects fresh)"
    have new_id: "eff_id new = tok" and new_marked: "isConvenient new"
      by (simp_all add: new_def fresh_id isConvenient_def)
    have "addEffect_status_effect en w a effectName u d = Inr (w1, new)"
      using removal fresh
      by (simp add: addEffect_status_effect_def tok_def [symmetric] new_def changes_def Let_def)
    then have "EffectInterface_addEffect (Suc m) en w effectName u origin overlay
                 = EffectHandler_addEffect (Suc m) en w1 new u origin overlay (Some d)"
      using actor classify NotExhaustion by (simp add: EffectInterface_addEffect_def)
    then show ?thesis
      using relayed [OF new_id] count [OF new_id] new_id new_marked
      unfolding tok_def es1_def by auto
  next
    case (Delta t)
    define current where "current = (case a_exhaustion a of None \<Rightarrow> 0 | Some c \<Rightarrow> c)"
    define lvl where "lvl = newExhaustionLevel t current (se_levels ex)"
    define name where "name = se_name ex @ '' '' @ string_of_int lvl"
    define changes where "changes = (case findEffectByName en name of
                                None \<Rightarrow> [] | Some found \<Rightarrow> e_changes (data found))"
    define new where "new = Effect ((data fresh)\<lparr>e_isConvenient := True,
                                     e_exhaustionLevel := Some lvl,
                                     e_originalExhaustion := Some current,
                                     e_changes := changes, e_name := name\<rparr>)
                             (subEffects fresh)"
    have nonzero: "lvl \<noteq> 0"
      using level Delta ex unfolding lvl_def current_def by blast
    have new_id: "eff_id new = tok" and new_marked: "isConvenient new"
      by (simp_all add: new_def fresh_id isConvenient_def)
    have "addEffect_exhaustion en w a u d t = Inr (Inr (w1, new))"
      using removal fresh ex nonzero
      by (simp add: addEffect_exhaustion_def tok_def [symmetric] new_def changes_def name_def
          lvl_def current_def Let_def)
    then have "EffectInterface_addEffect (Suc m) en w effectName u origin overlay
                 = EffectHandler_addEffect (Suc m) en w1 new u origin overlay (Some d)"
      using actor classify Delta by (simp add: EffectInterface_addEffect_def)
    then show ?thesis
      using relayed [OF new_id] count [OF new_id] new_id new_marked
      unfolding tok_def es1_def by auto
  qed
qed

text \<open>
  Claim C7 says that an instance with the same token is removed before the new one is
  created, so that exactly one remains. \<^verbatim>\<open>EffectInterface.addEffect\<close> and
  \<^verbatim>\<open>EffectHandler.addEffect\<close> find the existing instance by its \<^verbatim>\<open>_id\<close> alone and hand it to
  \<^verbatim>\<open>removeEffect\<close>, which searches effects marked convenient only: for an instance that is not
  marked, as the status toggle creates it, the relayed removal changes nothing, the
  instance stays, and the new one is created beside it.
\<close>

theorem addEffect_status_keeps_unmarked_instance:
  "EffectHandler_removeEffect
     (example_world [status_instance ''dnd5eprone000000'' ''Prone'' [''prone''] False])
     (Some ''dnd5eprone000000'') ''Actor.a'' None
   = Inr (example_world [status_instance ''dnd5eprone000000'' ''Prone'' [''prone''] False])
   \<and> EffectInterface_addEffect 1 example_env
     (example_world [status_instance ''dnd5eprone000000'' ''Prone'' [''prone''] False])
     ''Prone'' ''Actor.a'' None None
   = Some (Inr (example_world [status_instance ''dnd5eprone000000'' ''Prone'' [''prone''] False,
                               status_instance ''dnd5eprone000000'' ''Prone'' [''prone''] True]))
   \<and> map eff_id
        (effects_of (example_world [status_instance ''dnd5eprone000000'' ''Prone'' [''prone''] False,
                                    status_instance ''dnd5eprone000000'' ''Prone'' [''prone''] True])
           ''Actor.a'') = [''dnd5eprone000000'', ''dnd5eprone000000'']"
proof -
  have classify: "isStatusEffect example_env ''Prone''
     = Inr (Some \<lparr> d_id = ''prone'', d_staticID = ''dnd5eprone000000'',
                   d_isExhaustion = NotExhaustion, d_underscore_id = None \<rparr>)"
    by (simp add: isStatusEffect_def regex_defs example_defs)
  have removal: "EffectHandler_removeEffect
     (example_world [status_instance ''dnd5eprone000000'' ''Prone'' [''prone''] False])
     (Some ''dnd5eprone000000'') ''Actor.a'' None
   = Inr (example_world [status_instance ''dnd5eprone000000'' ''Prone'' [''prone''] False])"
    by (simp add: EffectHandler_removeEffect_def matchesID_def truthy_def store_defs example_defs)
  have added: "EffectInterface_addEffect 1 example_env
     (example_world [status_instance ''dnd5eprone000000'' ''Prone'' [''prone''] False])
     ''Prone'' ''Actor.a'' None None
   = Some (Inr (example_world [status_instance ''dnd5eprone000000'' ''Prone'' [''prone''] False,
                               status_instance ''dnd5eprone000000'' ''Prone'' [''prone''] True]))"
    unfolding EffectInterface_addEffect_def classify
    by (simp add: addEffect_status_effect_def addEffect_status_def EffectHandler_removeEffect_def
        matchesID_def truthy_def hasActiveHUD_def fromStatusEffect_def findEffectByName_def
        findCustomEffectByName_def store_defs example_defs fun_eq_iff)
  show ?thesis
    using removal added by (simp add: store_defs example_defs)
qed

section \<open>The lookup of the status toggle\<close>

text \<open>
  The descriptor of \<^verbatim>\<open>isStatusEffect\<close> never has the property \<^verbatim>\<open>_id\<close>, so the toggle takes
  the search by single status; the lookup by token runs only for an object that has it.
\<close>

lemma isStatusEffect_no_underscore_id:
  "isStatusEffect en effectName = Inr (Some d) \<Longrightarrow> d_underscore_id d = None"
  by (auto simp: isStatusEffect_def Let_def split: if_splits option.splits)

lemma toggleEffect_existing_by_status:
  "d_underscore_id d = None \<Longrightarrow>
     toggleEffect_existing a d
       = map eff_id (filter (\<lambda>effect. length (remdups (e_statuses (data effect))) = 1
                                       \<and> d_id d \<in> set (e_statuses (data effect)))
                       (a_effects a))"
  by (simp add: toggleEffect_existing_def truthy_def)

lemma toggleEffect_existing_by_token:
  "d_underscore_id d = Some tok \<Longrightarrow> tok \<noteq> [] \<Longrightarrow>
     toggleEffect_existing a d
       = (case find (\<lambda>effect. eff_id effect = tok) (a_effects a) of None \<Rightarrow> [] | Some effect \<Rightarrow> [tok])"
  by (auto simp: toggleEffect_existing_def truthy_def split: option.splits dest: find_Some_holds)

section \<open>Composite effects\<close>











end
